theory Spec2Isabelle
  imports Complex_Main "HOL-Library.Word" "HOL-Library.Sublist"
begin

section \<open>JavaScript strings and values\<close>

text \<open>
  A JavaScript string is a sequence of UTF-16 code units, so \<open>length\<close>, \<open>take\<close> and list
  equality are \<^verbatim>\<open>.length\<close>, \<^verbatim>\<open>.substring(0, n)\<close> and \<^verbatim>\<open>===\<close>. The literals of the
  source are ASCII (log lines, which carry the only non-ASCII text, are not modelled) and are
  written \<open>js ''...''\<close>.
\<close>

type_synonym jstring = "16 word list"

definition js :: "string \<Rightarrow> jstring" where
  "js s = map of_char s"

text \<open>\<^verbatim>\<open>s.includes(pat)\<close>: \<open>pat\<close> occurs in \<open>s\<close> as a contiguous block, case-sensitively.\<close>

fun str_includes :: "jstring \<Rightarrow> jstring \<Rightarrow> bool" where
  "str_includes [] pat = (pat = [])"
| "str_includes (c # cs) pat = (prefix pat (c # cs) \<or> str_includes cs pat)"

text \<open>
  \<^verbatim>\<open>`${n}`\<close> for a non-negative integer \<open>n\<close>: its decimal digits. The rate limiter is not
  among the sources; its \<^verbatim>\<open>retryAfter\<close> is a number of seconds (the test of the pipeline
  uses 60), taken here as a natural number.
\<close>

fun show_nat :: "nat \<Rightarrow> jstring" where
  "show_nat n =
     (if n < 10 then [of_nat (48 + n)]
      else show_nat (n div 10) @ [of_nat (48 + n mod 10)])"

text \<open>
  \<^verbatim>\<open>text.replace(/```json\n?/g, '')\<close> and \<^verbatim>\<open>text.replace(/```\n?/g, '')\<close>: every
  occurrence of the fence, found from left to right, is deleted together with one line feed
  that follows it.
\<close>

definition dropNewline :: "jstring \<Rightarrow> jstring" where
  "dropNewline s = (case s of [] \<Rightarrow> [] | c # cs \<Rightarrow> if c = 0x0A then cs else c # cs)"

function removeFences :: "jstring \<Rightarrow> jstring \<Rightarrow> jstring" where
  "removeFences [] s = s"
| "removeFences (f # fs) [] = []"
| "removeFences (f # fs) (c # cs) =
     (if prefix (f # fs) (c # cs)
      then removeFences (f # fs) (dropNewline (drop (length (f # fs)) (c # cs)))
      else c # removeFences (f # fs) cs)"
  by pat_completeness auto
termination
proof (relation "measure (\<lambda>(f, s). length s)")
  show "wf (measure (\<lambda>(f, s). length s))" by simp
next
  fix f c :: "16 word" and fs cs :: jstring
  have "length (dropNewline s) \<le> length s" for s
    by (cases s) (simp_all add: dropNewline_def)
  from this [of "drop (length fs) cs"]
  have "length (dropNewline (drop (length fs) cs)) \<le> length cs"
    by (rule le_trans) simp
  then show "((f # fs, dropNewline (drop (length (f # fs)) (c # cs))), f # fs, c # cs)
        \<in> measure (\<lambda>(f, s). length s)"
    by simp
next
  fix f c :: "16 word" and fs cs :: jstring
  show "((f # fs, cs), f # fs, c # cs) \<in> measure (\<lambda>(f, s). length s)"
    by simp
qed

text \<open>
  \<^verbatim>\<open>s.trim()\<close> removes white space and line terminators (ECMAScript \<open>WhiteSpace\<close> and
  \<open>LineTerminator\<close>) from both ends.
\<close>

definition isWhiteSpace :: "16 word \<Rightarrow> bool" where
  "isWhiteSpace c \<longleftrightarrow>
     c \<in> set [0x09, 0x0A, 0x0B, 0x0C, 0x0D, 0x20, 0xA0, 0x1680, 0x2028, 0x2029, 0x202F,
              0x205F, 0x3000, 0xFEFF]
     \<or> (0x2000 \<le> c \<and> c \<le> 0x200A)"

definition trim :: "jstring \<Rightarrow> jstring" where
  "trim s = rev (dropWhile isWhiteSpace (rev (dropWhile isWhiteSpace s)))"

text \<open>
  The values \<^verbatim>\<open>JSON.parse\<close> can return, and \<^verbatim>\<open>undefined\<close> for a property that is not
  there. A number is an IEEE double: not a number, an infinity, or a rational (both zeros are
  \<open>Finite 0\<close>; only the truth value of a number is ever looked at). An object lists its own
  properties, each name once.
\<close>

datatype jsnum = NaN | PosInfinity | NegInfinity | Finite rat

datatype jsval =
    JUndefined
  | JNull
  | JBool bool
  | JNum jsnum
  | JStr jstring
  | JArr "jsval list"
  | JObj "(jstring \<times> jsval) list"

fun truthy :: "jsval \<Rightarrow> bool" where
  "truthy JUndefined = False"
| "truthy JNull = False"
| "truthy (JBool b) = b"
| "truthy (JNum NaN) = False"
| "truthy (JNum PosInfinity) = True"
| "truthy (JNum NegInfinity) = True"
| "truthy (JNum (Finite q)) = (q \<noteq> 0)"
| "truthy (JStr s) = (s \<noteq> [])"
| "truthy (JArr xs) = True"
| "truthy (JObj kvs) = True"

text \<open>\<^verbatim>\<open>a || b\<close>\<close>

definition js_or :: "jsval \<Rightarrow> jsval \<Rightarrow> jsval" where
  "js_or a b = (if truthy a then a else b)"

text \<open>\<^verbatim>\<open>Array.isArray(v) ? v : []\<close>\<close>

fun arrayOrEmpty :: "jsval \<Rightarrow> jsval" where
  "arrayOrEmpty (JArr xs) = JArr xs"
| "arrayOrEmpty v = JArr []"

text \<open>
  \<^verbatim>\<open>v.name\<close> for the four property names the adapter reads (\<^verbatim>\<open>answer\<close>,
  \<^verbatim>\<open>experience_mentioned\<close>, \<^verbatim>\<open>key_technologies\<close>, \<^verbatim>\<open>follow_up_topics\<close>), none of which a
  built-in prototype defines: reading them from \<^verbatim>\<open>null\<close> or \<^verbatim>\<open>undefined\<close> raises a
  TypeError (\<open>Inl\<close> of its message, as Node.js words it), from an object gives the own
  property or \<^verbatim>\<open>undefined\<close>, from any other value gives \<^verbatim>\<open>undefined\<close>.
\<close>

fun getProp :: "jsval \<Rightarrow> jstring \<Rightarrow> jstring + jsval" where
  "getProp JUndefined name =
     Inl (js ''Cannot read properties of undefined (reading '' @ [0x27] @ name @ [0x27] @ js '')'')"
| "getProp JNull name =
     Inl (js ''Cannot read properties of null (reading '' @ [0x27] @ name @ [0x27] @ js '')'')"
| "getProp (JObj kvs) name = Inr (case map_of kvs name of None \<Rightarrow> JUndefined | Some v \<Rightarrow> v)"
| "getProp v name = Inr JUndefined"

text \<open>\<^verbatim>\<open>v?.[0]\<close>\<close>

fun firstElement :: "jsval \<Rightarrow> jsval" where
  "firstElement (JArr []) = JUndefined"
| "firstElement (JArr (x # xs)) = x"
| "firstElement (JStr []) = JUndefined"
| "firstElement (JStr (c # cs)) = JStr [c]"
| "firstElement (JObj kvs) = (case map_of kvs (js ''0'') of None \<Rightarrow> JUndefined | Some v \<Rightarrow> v)"
| "firstElement v = JUndefined"

text \<open>\<^verbatim>\<open>model || fallback\<close> for a \<^verbatim>\<open>model\<close> that is \<^verbatim>\<open>null\<close>/unset (\<open>None\<close>) or a string.\<close>

fun or_str :: "jstring option \<Rightarrow> jstring \<Rightarrow> jstring" where
  "or_str None d = d"
| "or_str (Some s) d = (if s = [] then d else s)"

section \<open>Responses, collaborators and effects\<close>

text \<open>
  The response object, with the twelve properties that the two source files read or write;
  a property an object does not have is \<open>JUndefined\<close>.
\<close>

record response =
  answer :: jsval
  experience_mentioned :: jsval
  key_technologies :: jsval
  follow_up_topics :: jsval
  score :: jsval
  strengths :: jsval
  weaknesses :: jsval
  suggestion :: jsval
  next_question :: jsval
  error :: jsval
  provider :: jsval
  model :: jsval

text \<open>The object \<^verbatim>\<open>checkRateLimit(provider)\<close> returns.\<close>

record rateLimitCheck =
  allowed :: bool
  reason :: jstring
  retryAfter :: nat

text \<open>
  What one call of the pipeline is given by the modules it imports and by its environment:
  the rate limiter's verdict, the cache's predicate and content (\<open>None\<close> is the miss,
  \<^verbatim>\<open>null\<close>), \<^verbatim>\<open>JSON.parse\<close> (\<open>None\<close> when it raises a SyntaxError), whether the
  module-level \<^verbatim>\<open>genAI\<close> client is set, and the two environment variables.
\<close>

record env =
  checkRateLimit :: "jstring \<Rightarrow> rateLimitCheck"
  isCacheable :: "jstring \<Rightarrow> bool"
  getCachedAIResponse :: "jstring \<Rightarrow> jstring \<Rightarrow> jstring option \<Rightarrow> jstring option \<Rightarrow> response option"
  JSON_parse :: "jstring \<Rightarrow> jsval option"
  genAI :: bool
  GROQ_MODEL :: "jstring option"
  GEMINI_MODEL :: "jstring option"

text \<open>
  The effects of a call, in the order they happen. \<open>Attempt\<close> marks each
  \<^verbatim>\<open>await fn()\<close> of the retry loop; \<open>GroqCalled\<close> and \<open>GeminiCalled\<close> mark an invocation of
  a provider adapter. Log lines are not recorded.
\<close>

datatype event =
    RateLimitChecked jstring
  | CacheLookup jstring jstring "jstring option" "jstring option"
  | CacheWrite jstring response jstring "jstring option" "jstring option"
  | Attempt
  | Slept nat
  | GroqCalled
  | GeminiCalled jstring

text \<open>
  The world outside: what the Groq adapter will do on its next, second next, ... invocation
  (raise an error with a message, \<open>Inl\<close>, or return an object), what lines 70 to 118 of the
  Gemini adapter will do on their next, second next, ... run (raise, or produce the reply's
  text: the prompt they build is a function of the arguments and the reply is whatever the
  service sends, so both are one unknown), and the effects so far. An exception is the
  message of its \<^verbatim>\<open>Error\<close>.
\<close>

record world =
  groq_replies :: "nat \<Rightarrow> jstring + response"
  gemini_replies :: "nat \<Rightarrow> jstring + jstring"
  trace :: "event list"

definition emit :: "event \<Rightarrow> world \<Rightarrow> world" where
  "emit ev w = w\<lparr>trace := trace w @ [ev]\<rparr>"

definition next_groq :: "world \<Rightarrow> world" where
  "next_groq w = w\<lparr>groq_replies := (\<lambda>n. groq_replies w (Suc n))\<rparr>"

definition next_gemini :: "world \<Rightarrow> world" where
  "next_gemini w = w\<lparr>gemini_replies := (\<lambda>n. gemini_replies w (Suc n))\<rparr>"

section \<open>The retry policy\<close>

record retry_config =
  maxRetries :: nat
  initialDelay :: nat
  maxDelay :: nat
  backoffMultiplier :: nat

definition RETRY_CONFIG :: retry_config where
  "RETRY_CONFIG = \<lparr>maxRetries = 3, initialDelay = 1000, maxDelay = 10000, backoffMultiplier = 2\<rparr>"

definition isRetryable :: "jstring \<Rightarrow> bool" where
  "isRetryable message \<longleftrightarrow>
     str_includes message (js ''timeout'') \<or>
     str_includes message (js ''ECONNRESET'') \<or>
     str_includes message (js ''ETIMEDOUT'') \<or>
     str_includes message (js ''429'') \<or>
     str_includes message (js ''503'') \<or>
     str_includes message (js ''500'')"

fun retryWithBackoff ::
  "(world \<Rightarrow> (jstring + 'a) \<times> world) \<Rightarrow> nat \<Rightarrow> nat \<Rightarrow> world \<Rightarrow> (jstring + 'a) \<times> world" where
  "retryWithBackoff fn retries delay w =
     (case fn (emit Attempt w) of
        (Inr v, w') \<Rightarrow> (Inr v, w')
      | (Inl message, w') \<Rightarrow>
          if retries = 0 then (Inl message, w')
          else if \<not> isRetryable message then (Inl message, w')
          else
            let nextDelay = min (delay * backoffMultiplier RETRY_CONFIG) (maxDelay RETRY_CONFIG)
            in retryWithBackoff fn (retries - 1) nextDelay (emit (Slept delay) w'))"

section \<open>The Gemini adapter\<close>

definition cleanedText :: "jstring \<Rightarrow> jstring" where
  "cleanedText text = trim (removeFences (js ''```'') (removeFences (js ''```json'') text))"

text \<open>Lines 121 to 135: the parsed reply, or the object built from the raw text.\<close>

definition parsedResponse :: "env \<Rightarrow> jstring \<Rightarrow> jsval" where
  "parsedResponse e text =
     (case JSON_parse e (cleanedText text) of
        Some v \<Rightarrow> v
      | None \<Rightarrow>
          JObj [(js ''answer'',
                 js_or (JStr (take 500 text))
                   (JStr (js ''Based on my extensive experience in this field, I can provide detailed insights...''))),
                (js ''experience_mentioned'', JArr []),
                (js ''key_technologies'', JArr []),
                (js ''follow_up_topics'', JArr [])])"

text \<open>
  Lines 137 to 150. The first property read raises when the parsed value is \<^verbatim>\<open>null\<close>;
  after it none can.
\<close>

definition validatedResponse :: "jstring \<Rightarrow> jsval \<Rightarrow> jstring + response" where
  "validatedResponse modelId parsed =
     (case getProp parsed (js ''answer'') of
        Inl message \<Rightarrow> Inl message
      | Inr a \<Rightarrow>
          (case (getProp parsed (js ''experience_mentioned''),
                 getProp parsed (js ''key_technologies''),
                 getProp parsed (js ''follow_up_topics'')) of
             (Inr em, Inr kt, Inr ft) \<Rightarrow>
               Inr \<lparr>answer = js_or a (JStr (js ''I have several years of hands-on experience with this...'')),
                    experience_mentioned = arrayOrEmpty em,
                    key_technologies = arrayOrEmpty kt,
                    follow_up_topics = arrayOrEmpty ft,
                    score = JNum (Finite 85),
                    strengths = js_or em (JArr [JStr (js ''Demonstrated experience'')]),
                    weaknesses = JArr [],
                    suggestion = js_or a (JStr []),
                    next_question = js_or (firstElement ft) (JStr (js ''Tell me more about your experience.'')),
                    error = JUndefined,
                    provider = JStr (js ''gemini''),
                    model = JStr modelId\<rparr>
           | (Inl message, _, _) \<Rightarrow> Inl message
           | (_, Inl message, _) \<Rightarrow> Inl message
           | (_, _, Inl message) \<Rightarrow> Inl message))"

text \<open>Lines 157 to 170: the object the adapter's \<^verbatim>\<open>catch\<close> returns.\<close>

definition geminiErrorResponse :: "jstring \<Rightarrow> jstring \<Rightarrow> response" where
  "geminiErrorResponse modelId message =
     \<lparr>answer = JStr (js ''I have extensive experience in this area. Let me share a specific example from my previous role...''),
      experience_mentioned = JArr [],
      key_technologies = JArr [],
      follow_up_topics = JArr [],
      score = JNum (Finite 0),
      strengths = JArr [],
      weaknesses = JArr [JStr (js ''Error processing request with Gemini'')],
      suggestion = JStr (js ''I have extensive experience in this area. Let me share a specific example...''),
      next_question = JStr (js ''Could you tell me more about your experience?''),
      error = JStr message,
      provider = JStr (js ''gemini''),
      model = JStr modelId\<rparr>"

text \<open>The \<^verbatim>\<open>try\<close> block of the adapter, lines 66 to 152.\<close>

definition gemini_try :: "env \<Rightarrow> jstring \<Rightarrow> world \<Rightarrow> (jstring + response) \<times> world" where
  "gemini_try e modelId w =
     (if \<not> genAI e then (Inl (js ''Gemini client not initialized''), w)
      else
        (case gemini_replies w 0 of
           Inl message \<Rightarrow> (Inl message, next_gemini w)
         | Inr text \<Rightarrow> (validatedResponse modelId (parsedResponse e text), next_gemini w)))"

definition generateGeminiResponse :: "env \<Rightarrow> jstring \<Rightarrow> world \<Rightarrow> (jstring + response) \<times> world" where
  "generateGeminiResponse e modelId w =
     (case gemini_try e modelId (emit (GeminiCalled modelId) w) of
        (Inr r, w') \<Rightarrow> (Inr r, w')
      | (Inl message, w') \<Rightarrow> (Inr (geminiErrorResponse modelId message), w'))"

section \<open>The pipeline\<close>

text \<open>
  The function handed to the retry loop, lines 212 to 239. The conversation history, the role
  type and the retrieved context are only passed on to the adapters, whose behaviour is the
  world's.
\<close>

definition providerCall :: "env \<Rightarrow> jstring \<Rightarrow> jstring option \<Rightarrow> world \<Rightarrow> (jstring + response) \<times> world" where
  "providerCall e prov modelId w =
     (if prov = js ''groq'' then
        (case groq_replies w 0 of
           Inl message \<Rightarrow> (Inl message, next_groq (emit GroqCalled w))
         | Inr result \<Rightarrow>
             (Inr (result\<lparr>provider := JStr (js ''groq''),
                          model := JStr (or_str modelId (or_str (GROQ_MODEL e) (js ''llama-3.3-70b-versatile'')))\<rparr>),
              next_groq (emit GroqCalled w)))
      else if prov = js ''gemini'' then
        generateGeminiResponse e (or_str modelId (or_str (GEMINI_MODEL e) (js ''gemini-2.0-flash-exp''))) w
      else (Inl (js ''Unknown provider: '' @ prov), w))"

text \<open>Lines 266 to 279: the object the pipeline's \<^verbatim>\<open>catch\<close> returns.\<close>

definition fallbackResponse :: "jstring \<Rightarrow> jstring option \<Rightarrow> jstring \<Rightarrow> response" where
  "fallbackResponse prov modelId message =
     \<lparr>answer = JStr (js ''I apologize, but I'm having trouble generating a response right now. '' @ message
                      @ js ''. Please try again in a moment.''),
      experience_mentioned = JArr [],
      key_technologies = JArr [],
      follow_up_topics = JArr [],
      score = JNum (Finite 0),
      strengths = JArr [],
      weaknesses = JArr [JStr (js ''Error with '' @ prov @ js '': '' @ message)],
      suggestion = JStr (js ''Please try your question again or switch to a different AI provider.''),
      next_question = JStr (js ''Could you rephrase your question?''),
      error = JStr message,
      provider = JStr prov,
      model = JStr (or_str modelId (js ''unknown''))\<rparr>"

text \<open>Lines 196 to 198: the message of the error raised when the rate limiter rejects.\<close>

definition rateLimitMessage :: "rateLimitCheck \<Rightarrow> jstring" where
  "rateLimitMessage rateLimit =
     reason rateLimit @ js ''. Please wait '' @ show_nat (retryAfter rateLimit)
       @ js '' seconds and try again.''"

text \<open>The \<^verbatim>\<open>try\<close> block of the pipeline, lines 181 to 254.\<close>

definition generate_try ::
  "env \<Rightarrow> jstring \<Rightarrow> jstring \<Rightarrow> jstring option \<Rightarrow> jstring option \<Rightarrow> world \<Rightarrow> (jstring + response) \<times> world" where
  "generate_try e question prov modelId customPersona w =
     (let rateLimit = checkRateLimit e prov;
          w1 = emit (RateLimitChecked prov) w
      in
        if \<not> allowed rateLimit then
          (Inl (rateLimitMessage rateLimit), w1)
        else
          let (cachedResponse, w2) =
                (if isCacheable e question
                 then (getCachedAIResponse e question prov modelId customPersona,
                       emit (CacheLookup question prov modelId customPersona) w1)
                 else (None, w1))
          in
            (case cachedResponse of
               Some r \<Rightarrow> (Inr r, w2)
             | None \<Rightarrow>
                 (case retryWithBackoff (providerCall e prov modelId)
                         (maxRetries RETRY_CONFIG) (initialDelay RETRY_CONFIG) w2 of
                    (Inl message, w3) \<Rightarrow> (Inl message, w3)
                  | (Inr r, w3) \<Rightarrow>
                      (Inr r,
                       if isCacheable e question
                       then emit (CacheWrite question r prov modelId customPersona) w3
                       else w3))))"

definition generateInterviewResponse ::
  "env \<Rightarrow> jstring \<Rightarrow> jstring \<Rightarrow> jstring option \<Rightarrow> jstring option \<Rightarrow> world \<Rightarrow> (jstring + response) \<times> world" where
  "generateInterviewResponse e question prov modelId customPersona w =
     (case generate_try e question prov modelId customPersona w of
        (Inr r, w') \<Rightarrow> (Inr r, w')
      | (Inl message, w') \<Rightarrow> (Inr (fallbackResponse prov modelId message), w'))"

section \<open>Observations on a run\<close>

text \<open>The delays of the sleeps in a sequence of effects, in order.\<close>

fun slept :: "event list \<Rightarrow> nat list" where
  "slept [] = []"
| "slept (Slept d # evs) = d # slept evs"
| "slept (ev # evs) = slept evs"

text \<open>The cache lookup of step 2, made for a cacheable question only.\<close>

definition lookups :: "env \<Rightarrow> jstring \<Rightarrow> jstring \<Rightarrow> jstring option \<Rightarrow> jstring option \<Rightarrow> event list" where
  "lookups e question prov modelId customPersona =
     (if isCacheable e question then [CacheLookup question prov modelId customPersona] else [])"

text \<open>The cache write of step 4, made for a cacheable question only.\<close>

definition writes :: "env \<Rightarrow> jstring \<Rightarrow> response \<Rightarrow> jstring \<Rightarrow> jstring option \<Rightarrow> jstring option \<Rightarrow> event list" where
  "writes e question r prov modelId customPersona =
     (if isCacheable e question then [CacheWrite question r prov modelId customPersona] else [])"

text \<open>Step 2 finds nothing: the question is not cacheable, or the cache misses.\<close>

definition cache_miss :: "env \<Rightarrow> jstring \<Rightarrow> jstring \<Rightarrow> jstring option \<Rightarrow> jstring option \<Rightarrow> bool" where
  "cache_miss e question prov modelId customPersona \<longleftrightarrow>
     (if isCacheable e question then getCachedAIResponse e question prov modelId customPersona = None
      else True)"

text \<open>The world once step 1 has admitted the call and step 2 has found nothing.\<close>

definition admitted :: "env \<Rightarrow> jstring \<Rightarrow> jstring \<Rightarrow> jstring option \<Rightarrow> jstring option \<Rightarrow> world \<Rightarrow> world" where
  "admitted e question prov modelId customPersona w =
     (if isCacheable e question
      then emit (CacheLookup question prov modelId customPersona) (emit (RateLimitChecked prov) w)
      else emit (RateLimitChecked prov) w)"

text \<open>The model the pipeline hands to the Gemini adapter.\<close>

definition geminiModel :: "env \<Rightarrow> jstring option \<Rightarrow> jstring" where
  "geminiModel e modelId = or_str modelId (or_str (GEMINI_MODEL e) (js ''gemini-2.0-flash-exp''))"

text \<open>The delays the loop would sleep if every one of \<open>retries\<close> retries were taken.\<close>

fun backoffSchedule :: "nat \<Rightarrow> nat \<Rightarrow> nat list" where
  "backoffSchedule 0 delay = []"
| "backoffSchedule (Suc retries) delay =
     delay # backoffSchedule retries (min (delay * backoffMultiplier RETRY_CONFIG) (maxDelay RETRY_CONFIG))"

definition isNonEmptyString :: "jsval \<Rightarrow> bool" where
  "isNonEmptyString v = (case v of JStr s \<Rightarrow> s \<noteq> [] | _ \<Rightarrow> False)"

section \<open>Example inputs\<close>

text \<open>
  The collaborators as the test suite of the pipeline mocks them: a rate limiter that admits,
  one that rejects with \<^verbatim>\<open>{allowed: false, reason: 'Rate limit exceeded', retryAfter: 60}\<close>,
  a cache that finds every question cacheable and misses, and the cached object of the
  first test.
\<close>

definition admitting :: rateLimitCheck where
  "admitting = \<lparr>allowed = True, reason = [], retryAfter = 0\<rparr>"

definition rejecting :: rateLimitCheck where
  "rejecting = \<lparr>allowed = False, reason = js ''Rate limit exceeded'', retryAfter = 60\<rparr>"

definition parse_example :: "jstring \<Rightarrow> jsval option" where
  "parse_example s =
     (if s = js ''null'' then Some JNull
      else if s = js ''{}'' then Some (JObj [])
      else None)"



definition test_env :: env where
  "test_env =
     \<lparr>checkRateLimit = (\<lambda>p. admitting),
      isCacheable = (\<lambda>q. True),
      getCachedAIResponse = (\<lambda>q p m c. None),
      JSON_parse = parse_example,
      genAI = True,
      GROQ_MODEL = None,
      GEMINI_MODEL = None\<rparr>"

definition cachedResponse :: response where
  "cachedResponse =
     \<lparr>answer = JStr (js ''Cached answer''),
      experience_mentioned = JUndefined,
      key_technologies = JUndefined,
      follow_up_topics = JUndefined,
      score = JUndefined,
      strengths = JUndefined,
      weaknesses = JUndefined,
      suggestion = JUndefined,
      next_question = JUndefined,
      error = JUndefined,
      provider = JStr (js ''groq''),
      model = JStr (js ''test-model'')\<rparr>"

text \<open>A world in which every provider call raises an error with the given message.\<close>

definition failing_world :: "jstring \<Rightarrow> world" where
  "failing_world message =
     \<lparr>groq_replies = (\<lambda>k. Inl message), gemini_replies = (\<lambda>k. Inl message), trace = []\<rparr>"

text \<open>A world in which the Gemini service replies with the given text.\<close>

definition replying_world :: "jstring \<Rightarrow> world" where
  "replying_world text =
     \<lparr>groq_replies = (\<lambda>k. Inl (js ''Connection error.'')), gemini_replies = (\<lambda>k. Inr text), trace = []\<rparr>"

section \<open>Basic facts\<close>

declare retryWithBackoff.simps [simp del]

declare show_nat.simps [simp del]

lemma emit_simps [simp]:
  "trace (emit ev w) = trace w @ [ev]"
  "groq_replies (emit ev w) = groq_replies w"
  "gemini_replies (emit ev w) = gemini_replies w"
  by (simp_all add: emit_def)

lemma next_groq_simps [simp]:
  "trace (next_groq w) = trace w"
  "groq_replies (next_groq w) k = groq_replies w (Suc k)"
  "gemini_replies (next_groq w) = gemini_replies w"
  by (simp_all add: next_groq_def)

lemma next_gemini_simps [simp]:
  "trace (next_gemini w) = trace w"
  "groq_replies (next_gemini w) = groq_replies w"
  "gemini_replies (next_gemini w) k = gemini_replies w (Suc k)"
  by (simp_all add: next_gemini_def)

lemma str_includes_sublist: "str_includes s pat \<longleftrightarrow> sublist pat s"
  by (induction s) (auto simp: sublist_Cons_right)

lemma str_includes_middle: "str_includes (a @ b @ c) b"
  by (simp add: str_includes_sublist)

lemma str_includes_front: "str_includes (b @ c) b"
  using str_includes_middle [of "[]" b c] by simp

lemma slept_append [simp]: "slept (xs @ ys) = slept xs @ slept ys"
  by (induction xs rule: slept.induct) simp_all

lemma gemini_not_groq [simp]: "js ''gemini'' \<noteq> js ''groq''"
  by (simp add: js_def)

subsection \<open>The retry loop, one step at a time\<close>

lemma retry_returns:
  "fn (emit Attempt w) = (Inr v, w') \<Longrightarrow> retryWithBackoff fn retries delay w = (Inr v, w')"
  by (simp add: retryWithBackoff.simps)

lemma retry_gives_up:
  "fn (emit Attempt w) = (Inl message, w') \<Longrightarrow> retries = 0 \<or> \<not> isRetryable message \<Longrightarrow>
   retryWithBackoff fn retries delay w = (Inl message, w')"
  by (auto simp: retryWithBackoff.simps)

lemma retry_again:
  "fn (emit Attempt w) = (Inl message, w') \<Longrightarrow> retries \<noteq> 0 \<Longrightarrow> isRetryable message \<Longrightarrow>
   retryWithBackoff fn retries delay w =
     retryWithBackoff fn (retries - 1) (min (delay * 2) 10000) (emit (Slept delay) w')"
  by (simp add: retryWithBackoff.simps [of fn retries] RETRY_CONFIG_def Let_def)

subsection \<open>The provider call\<close>

lemma providerCall_groq_throws:
  "groq_replies w 0 = Inl message \<Longrightarrow>
   providerCall e (js ''groq'') modelId w = (Inl message, next_groq (emit GroqCalled w))"
  by (simp add: providerCall_def)

lemma providerCall_unknown:
  "prov \<noteq> js ''groq'' \<Longrightarrow> prov \<noteq> js ''gemini'' \<Longrightarrow>
   providerCall e prov modelId w = (Inl (js ''Unknown provider: '' @ prov), w)"
  by (simp add: providerCall_def)

lemma providerCall_gemini:
  "providerCall e (js ''gemini'') modelId w =
     generateGeminiResponse e (or_str modelId (or_str (GEMINI_MODEL e) (js ''gemini-2.0-flash-exp''))) w"
  by (simp add: providerCall_def)

subsection \<open>The steps of the pipeline\<close>

lemma generate_try_rejected:
  "\<not> allowed (checkRateLimit e prov) \<Longrightarrow>
   generate_try e question prov modelId customPersona w =
     (Inl (rateLimitMessage (checkRateLimit e prov)), emit (RateLimitChecked prov) w)"
  by (simp add: generate_try_def Let_def)

lemma generate_try_hit:
  "allowed (checkRateLimit e prov) \<Longrightarrow> isCacheable e question \<Longrightarrow>
   getCachedAIResponse e question prov modelId customPersona = Some r \<Longrightarrow>
   generate_try e question prov modelId customPersona w =
     (Inr r, emit (CacheLookup question prov modelId customPersona) (emit (RateLimitChecked prov) w))"
  by (simp add: generate_try_def Let_def)


lemma admitted_simps [simp]:
  "trace (admitted e question prov modelId customPersona w) =
     trace w @ RateLimitChecked prov # lookups e question prov modelId customPersona"
  "groq_replies (admitted e question prov modelId customPersona w) = groq_replies w"
  "gemini_replies (admitted e question prov modelId customPersona w) = gemini_replies w"
  by (simp_all add: admitted_def lookups_def)

lemma generate_try_miss:
  "allowed (checkRateLimit e prov) \<Longrightarrow> cache_miss e question prov modelId customPersona \<Longrightarrow>
   generate_try e question prov modelId customPersona w =
     (case retryWithBackoff (providerCall e prov modelId) 3 1000
             (admitted e question prov modelId customPersona w) of
        (Inl message, w3) \<Rightarrow> (Inl message, w3)
      | (Inr r, w3) \<Rightarrow>
          (Inr r, if isCacheable e question
                  then emit (CacheWrite question r prov modelId customPersona) w3 else w3))"
  by (simp add: generate_try_def Let_def cache_miss_def admitted_def RETRY_CONFIG_def)

lemma generate_miss_returns:
  assumes "allowed (checkRateLimit e prov)" and "cache_miss e question prov modelId customPersona"
    and "retryWithBackoff (providerCall e prov modelId) 3 1000
           (admitted e question prov modelId customPersona w) = (Inr r, w3)"
  shows "generateInterviewResponse e question prov modelId customPersona w =
           (Inr r, if isCacheable e question
                   then emit (CacheWrite question r prov modelId customPersona) w3 else w3)"
  using assms by (simp add: generateInterviewResponse_def generate_try_miss)

lemma generate_miss_throws:
  assumes "allowed (checkRateLimit e prov)" and "cache_miss e question prov modelId customPersona"
    and "retryWithBackoff (providerCall e prov modelId) 3 1000
           (admitted e question prov modelId customPersona w) = (Inl message, w3)"
  shows "generateInterviewResponse e question prov modelId customPersona w =
           (Inr (fallbackResponse prov modelId message), w3)"
  using assms by (simp add: generateInterviewResponse_def generate_try_miss)

subsection \<open>The Gemini adapter, case by case\<close>

lemma js_empty_iff [simp]: "js s = [] \<longleftrightarrow> s = []"
  by (simp add: js_def)


lemma gemini_uninitialised:
  "\<not> genAI e \<Longrightarrow>
   generateGeminiResponse e modelId w =
     (Inr (geminiErrorResponse modelId (js ''Gemini client not initialized'')),
      emit (GeminiCalled modelId) w)"
  by (simp add: generateGeminiResponse_def gemini_try_def)

lemma gemini_backend_throws:
  "genAI e \<Longrightarrow> gemini_replies w 0 = Inl message \<Longrightarrow>
   generateGeminiResponse e modelId w =
     (Inr (geminiErrorResponse modelId message), next_gemini (emit (GeminiCalled modelId) w))"
  by (simp add: generateGeminiResponse_def gemini_try_def)

lemma gemini_backend_replies:
  "genAI e \<Longrightarrow> gemini_replies w 0 = Inr text \<Longrightarrow>
   generateGeminiResponse e modelId w =
     (Inr (case validatedResponse modelId (parsedResponse e text) of
             Inl message \<Rightarrow> geminiErrorResponse modelId message
           | Inr r \<Rightarrow> r),
      next_gemini (emit (GeminiCalled modelId) w))"
  by (simp add: generateGeminiResponse_def gemini_try_def split: sum.splits)

lemma gemini_returns:
  "\<exists>r w'. generateGeminiResponse e modelId w = (Inr r, w') \<and>
          trace w' = trace w @ [GeminiCalled modelId] \<and> groq_replies w' = groq_replies w"
proof (cases "genAI e")
  case False
  then show ?thesis by (simp add: gemini_uninitialised)
next
  case True
  then show ?thesis
    by (cases "gemini_replies w 0") (simp_all add: gemini_backend_throws gemini_backend_replies)
qed

lemma parse_fallback_validated:
  assumes "JSON_parse e (cleanedText text) = None"
  shows "\<exists>r. validatedResponse modelId (parsedResponse e text) = Inr r \<and>
           answer r = JStr (if text = []
                            then js ''Based on my extensive experience in this field, I can provide detailed insights...''
                            else take 500 text) \<and>
           experience_mentioned r = JArr [] \<and> key_technologies r = JArr [] \<and>
           follow_up_topics r = JArr [] \<and> error r = JUndefined \<and>
           provider r = JStr (js ''gemini'') \<and> model r = JStr modelId"
  using assms by (simp add: validatedResponse_def parsedResponse_def js_or_def)




lemma gemini_pipeline:
  assumes adm: "allowed (checkRateLimit e (js ''gemini''))"
    and miss: "cache_miss e question (js ''gemini'') modelId customPersona"
    and run: "generateGeminiResponse e (geminiModel e modelId)
                (emit Attempt (admitted e question (js ''gemini'') modelId customPersona w)) = (Inr r, w')"
  shows "generateInterviewResponse e question (js ''gemini'') modelId customPersona w =
           (Inr r, if isCacheable e question
                   then emit (CacheWrite question r (js ''gemini'') modelId customPersona) w' else w')"
proof -
  have "providerCall e (js ''gemini'') modelId
          (emit Attempt (admitted e question (js ''gemini'') modelId customPersona w)) = (Inr r, w')"
    using run by (simp add: providerCall_gemini geminiModel_def)
  then have "retryWithBackoff (providerCall e (js ''gemini'') modelId) 3 1000
               (admitted e question (js ''gemini'') modelId customPersona w) = (Inr r, w')"
    by (rule retry_returns)
  with adm miss show ?thesis by (rule generate_miss_returns)
qed


subsection \<open>The retry loop around the provider call\<close>

lemma providerCall_effects:
  "\<exists>pc. trace (snd (providerCall e prov modelId w)) = trace w @ pc \<and> slept pc = []"
proof -
  consider "prov = js ''groq''" | "prov = js ''gemini''" | "prov \<noteq> js ''groq''" "prov \<noteq> js ''gemini''"
    by blast
  then show ?thesis
  proof cases
    case 1
    then show ?thesis
      by (cases "groq_replies w 0") (simp_all add: providerCall_def)
  next
    case 2
    from gemini_returns [of e "or_str modelId (or_str (GEMINI_MODEL e) (js ''gemini-2.0-flash-exp''))" w]
    show ?thesis
      unfolding 2 providerCall_gemini by auto
  next
    case 3
    then show ?thesis by (simp add: providerCall_unknown)
  qed
qed

lemma backoffSchedule_Suc:
  "backoffSchedule (Suc retries) delay = delay # backoffSchedule retries (min (delay * 2) 10000)"
  by (simp add: RETRY_CONFIG_def)

lemma retry_effects:
  "\<exists>rest. trace (snd (retryWithBackoff (providerCall e prov modelId) retries delay w)) =
            trace w @ Attempt # rest \<and>
          prefix (slept rest) (backoffSchedule retries delay)"
proof (induction retries arbitrary: delay w)
  case 0
  obtain res w' where call: "providerCall e prov modelId (emit Attempt w) = (res, w')"
    by (cases "providerCall e prov modelId (emit Attempt w)")
  from providerCall_effects [of e prov modelId "emit Attempt w"] call
  obtain pc where pc: "trace w' = trace w @ Attempt # pc" "slept pc = []"
    by auto
  have "retryWithBackoff (providerCall e prov modelId) 0 delay w = (res, w')"
    using call by (cases res) (simp_all add: retry_returns retry_gives_up)
  with pc show ?case by simp
next
  case (Suc n)
  obtain res w' where call: "providerCall e prov modelId (emit Attempt w) = (res, w')"
    by (cases "providerCall e prov modelId (emit Attempt w)")
  from providerCall_effects [of e prov modelId "emit Attempt w"] call
  obtain pc where pc: "trace w' = trace w @ Attempt # pc" "slept pc = []"
    by auto
  show ?case
  proof (cases res)
    case (Inr v)
    with call have "retryWithBackoff (providerCall e prov modelId) (Suc n) delay w = (res, w')"
      by (simp add: retry_returns)
    with pc show ?thesis by simp
  next
    case (Inl message)
    show ?thesis
    proof (cases "isRetryable message")
      case False
      with call Inl have "retryWithBackoff (providerCall e prov modelId) (Suc n) delay w = (res, w')"
        by (simp add: retry_gives_up)
      with pc show ?thesis by simp
    next
      case True
      with call Inl
      have step: "retryWithBackoff (providerCall e prov modelId) (Suc n) delay w =
                    retryWithBackoff (providerCall e prov modelId) n (min (delay * 2) 10000)
                      (emit (Slept delay) w')"
        using retry_again [of "providerCall e prov modelId" w message w' "Suc n" delay] by simp
      from Suc.IH [of "min (delay * 2) 10000" "emit (Slept delay) w'"]
      obtain rest where rest:
        "trace (snd (retryWithBackoff (providerCall e prov modelId) n (min (delay * 2) 10000)
                       (emit (Slept delay) w'))) = trace (emit (Slept delay) w') @ Attempt # rest"
        "prefix (slept rest) (backoffSchedule n (min (delay * 2) 10000))"
        by auto
      have "trace (snd (retryWithBackoff (providerCall e prov modelId) (Suc n) delay w)) =
              trace w @ Attempt # (pc @ Slept delay # Attempt # rest)"
        using rest(1) pc(1) by (simp add: step)
      moreover have "prefix (slept (pc @ Slept delay # Attempt # rest)) (backoffSchedule (Suc n) delay)"
        using rest(2) pc(2) by (simp add: backoffSchedule_Suc del: backoffSchedule.simps)
      ultimately show ?thesis by blast
    qed
  qed
qed

lemma retry_unknown:
  assumes "prov \<noteq> js ''groq''" and "prov \<noteq> js ''gemini''"
  shows "\<exists>w' new. retryWithBackoff (providerCall e prov modelId) retries delay w =
                    (Inl (js ''Unknown provider: '' @ prov), w') \<and>
                  groq_replies w' = groq_replies w \<and> gemini_replies w' = gemini_replies w \<and>
                  trace w' = trace w @ new \<and> set new \<subseteq> insert Attempt (range Slept)"
proof (induction retries arbitrary: delay w)
  case 0
  have "retryWithBackoff (providerCall e prov modelId) 0 delay w =
          (Inl (js ''Unknown provider: '' @ prov), emit Attempt w)"
    using assms by (simp add: retry_gives_up providerCall_unknown)
  then show ?case by simp
next
  case (Suc n)
  have call: "providerCall e prov modelId (emit Attempt w) =
                (Inl (js ''Unknown provider: '' @ prov), emit Attempt w)"
    using assms by (simp add: providerCall_unknown)
  show ?case
  proof (cases "isRetryable (js ''Unknown provider: '' @ prov)")
    case False
    with call have "retryWithBackoff (providerCall e prov modelId) (Suc n) delay w =
          (Inl (js ''Unknown provider: '' @ prov), emit Attempt w)"
      by (simp add: retry_gives_up)
    then show ?thesis by simp
  next
    case True
    with call
    have step: "retryWithBackoff (providerCall e prov modelId) (Suc n) delay w =
                  retryWithBackoff (providerCall e prov modelId) n (min (delay * 2) 10000)
                    (emit (Slept delay) (emit Attempt w))"
      using retry_again [of "providerCall e prov modelId" w _ "emit Attempt w" "Suc n" delay] by simp
    from Suc.IH [of "min (delay * 2) 10000" "emit (Slept delay) (emit Attempt w)"]
    obtain w' new where
      "retryWithBackoff (providerCall e prov modelId) n (min (delay * 2) 10000)
         (emit (Slept delay) (emit Attempt w)) = (Inl (js ''Unknown provider: '' @ prov), w')"
      "groq_replies w' = groq_replies w" "gemini_replies w' = gemini_replies w"
      "trace w' = trace w @ Attempt # Slept delay # new" "set new \<subseteq> insert Attempt (range Slept)"
      by auto
    then show ?thesis
      unfolding step
      by (intro exI [of _ w'] exI [of _ "Attempt # Slept delay # new"]) auto
  qed
qed


lemma groq_retry_step:
  assumes "groq_replies w 0 = Inl message" and "isRetryable message" and "retries \<noteq> 0"
  shows "retryWithBackoff (providerCall e (js ''groq'') modelId) retries delay w =
           retryWithBackoff (providerCall e (js ''groq'') modelId) (retries - 1) (min (delay * 2) 10000)
             (emit (Slept delay) (next_groq (emit GroqCalled (emit Attempt w))))"
proof -
  have "providerCall e (js ''groq'') modelId (emit Attempt w) =
          (Inl message, next_groq (emit GroqCalled (emit Attempt w)))"
    using assms(1) by (simp add: providerCall_groq_throws)
  from retry_again [of "providerCall e (js ''groq'') modelId" w message _ retries delay,
      OF this assms(3) assms(2)]
  show ?thesis .
qed

lemma groq_retry_stop:
  assumes "groq_replies w 0 = Inl message" and "retries = 0 \<or> \<not> isRetryable message"
  shows "retryWithBackoff (providerCall e (js ''groq'') modelId) retries delay w =
           (Inl message, next_groq (emit GroqCalled (emit Attempt w)))"
proof -
  have "providerCall e (js ''groq'') modelId (emit Attempt w) =
          (Inl message, next_groq (emit GroqCalled (emit Attempt w)))"
    using assms(1) by (simp add: providerCall_groq_throws)
  from retry_gives_up [of "providerCall e (js ''groq'') modelId" w message _ retries delay,
      OF this assms(2)]
  show ?thesis .
qed

lemma groq_exhausts:
  assumes r: "groq_replies w 0 = Inl m0" "groq_replies w 1 = Inl m1" "groq_replies w 2 = Inl m2"
      "groq_replies w 3 = Inl m3"
    and t: "isRetryable m0" "isRetryable m1" "isRetryable m2"
  shows "fst (retryWithBackoff (providerCall e (js ''groq'') modelId) 3 1000 w) = Inl m3"
    and "trace (snd (retryWithBackoff (providerCall e (js ''groq'') modelId) 3 1000 w)) =
           trace w @ [Attempt, GroqCalled, Slept 1000, Attempt, GroqCalled, Slept 2000,
                      Attempt, GroqCalled, Slept 4000, Attempt, GroqCalled]"
proof -
  let ?fn = "providerCall e (js ''groq'') modelId"
  let ?w3 = "emit (Slept 1000) (next_groq (emit GroqCalled (emit Attempt w)))"
  let ?w4 = "emit (Slept 2000) (next_groq (emit GroqCalled (emit Attempt ?w3)))"
  let ?w5 = "emit (Slept 4000) (next_groq (emit GroqCalled (emit Attempt ?w4)))"
  let ?w6 = "next_groq (emit GroqCalled (emit Attempt ?w5))"
  have r3: "groq_replies ?w3 0 = Inl m1" using r(2) by simp
  have r4: "groq_replies ?w4 0 = Inl m2" using r(3) by (simp add: numeral_2_eq_2)
  have r5: "groq_replies ?w5 0 = Inl m3" using r(4) by (simp add: numeral_3_eq_3)
  have "retryWithBackoff ?fn 3 1000 w = retryWithBackoff ?fn 2 2000 ?w3"
    using groq_retry_step [OF r(1) t(1), of 3 e modelId 1000] by simp
  also have "\<dots> = retryWithBackoff ?fn 1 4000 ?w4"
    using groq_retry_step [OF r3 t(2), of 2 e modelId 2000] by simp
  also have "\<dots> = retryWithBackoff ?fn 0 8000 ?w5"
    using groq_retry_step [OF r4 t(3), of 1 e modelId 4000] by simp
  also have "\<dots> = (Inl m3, ?w6)"
    using groq_retry_stop [OF r5, of 0 e modelId 8000] by simp
  finally have loop: "retryWithBackoff ?fn 3 1000 w = (Inl m3, ?w6)" .
  show "fst (retryWithBackoff ?fn 3 1000 w) = Inl m3"
    by (simp add: loop)
  show "trace (snd (retryWithBackoff ?fn 3 1000 w)) =
           trace w @ [Attempt, GroqCalled, Slept 1000, Attempt, GroqCalled, Slept 2000,
                      Attempt, GroqCalled, Slept 4000, Attempt, GroqCalled]"
    by (simp add: loop)
qed

lemma unknown_retry_step:
  assumes "prov \<noteq> js ''groq''" and "prov \<noteq> js ''gemini''"
    and "isRetryable (js ''Unknown provider: '' @ prov)" and "retries \<noteq> 0"
  shows "retryWithBackoff (providerCall e prov modelId) retries delay w =
           retryWithBackoff (providerCall e prov modelId) (retries - 1) (min (delay * 2) 10000)
             (emit (Slept delay) (emit Attempt w))"
proof -
  have "providerCall e prov modelId (emit Attempt w) =
          (Inl (js ''Unknown provider: '' @ prov), emit Attempt w)"
    using assms(1,2) by (rule providerCall_unknown)
  from retry_again [of "providerCall e prov modelId" w _ _ retries delay, OF this assms(4) assms(3)]
  show ?thesis .
qed

lemma unknown_retry_stop:
  assumes "prov \<noteq> js ''groq''" and "prov \<noteq> js ''gemini''"
    and "retries = 0 \<or> \<not> isRetryable (js ''Unknown provider: '' @ prov)"
  shows "retryWithBackoff (providerCall e prov modelId) retries delay w =
           (Inl (js ''Unknown provider: '' @ prov), emit Attempt w)"
proof -
  have "providerCall e prov modelId (emit Attempt w) =
          (Inl (js ''Unknown provider: '' @ prov), emit Attempt w)"
    using assms(1,2) by (rule providerCall_unknown)
  from retry_gives_up [of "providerCall e prov modelId" w _ _ retries delay, OF this assms(3)]
  show ?thesis .
qed

lemma unknown_exhausts:
  assumes "prov \<noteq> js ''groq''" and "prov \<noteq> js ''gemini''"
    and "isRetryable (js ''Unknown provider: '' @ prov)"
  shows "fst (retryWithBackoff (providerCall e prov modelId) 3 1000 w) =
           Inl (js ''Unknown provider: '' @ prov)"
    and "trace (snd (retryWithBackoff (providerCall e prov modelId) 3 1000 w)) =
           trace w @ [Attempt, Slept 1000, Attempt, Slept 2000, Attempt, Slept 4000, Attempt]"
proof -
  let ?fn = "providerCall e prov modelId"
  have "retryWithBackoff ?fn 3 1000 w = retryWithBackoff ?fn 2 2000 (emit (Slept 1000) (emit Attempt w))"
    using unknown_retry_step [OF assms, of 3 e modelId 1000 w] by simp
  also have "\<dots> = retryWithBackoff ?fn 1 4000
                      (emit (Slept 2000) (emit Attempt (emit (Slept 1000) (emit Attempt w))))"
    using unknown_retry_step [OF assms, of 2 e modelId 2000] by simp
  also have "\<dots> = retryWithBackoff ?fn 0 8000
                      (emit (Slept 4000) (emit Attempt (emit (Slept 2000) (emit Attempt
                        (emit (Slept 1000) (emit Attempt w))))))"
    using unknown_retry_step [OF assms, of 1 e modelId 4000] by simp
  also have "\<dots> = (Inl (js ''Unknown provider: '' @ prov),
            emit Attempt (emit (Slept 4000) (emit Attempt (emit (Slept 2000) (emit Attempt
              (emit (Slept 1000) (emit Attempt w)))))))"
    using unknown_retry_stop [OF assms(1,2), of 0 e modelId 8000] by simp
  finally have loop: "retryWithBackoff ?fn 3 1000 w =
          (Inl (js ''Unknown provider: '' @ prov),
            emit Attempt (emit (Slept 4000) (emit Attempt (emit (Slept 2000) (emit Attempt
              (emit (Slept 1000) (emit Attempt w)))))))" .
  show "fst (retryWithBackoff ?fn 3 1000 w) = Inl (js ''Unknown provider: '' @ prov)"
    by (simp add: loop)
  show "trace (snd (retryWithBackoff ?fn 3 1000 w)) =
           trace w @ [Attempt, Slept 1000, Attempt, Slept 2000, Attempt, Slept 4000, Attempt]"
    by (simp add: loop)
qed

subsection \<open>The effects of a whole call\<close>

lemma slept_lookups [simp]: "slept (lookups e question prov modelId customPersona) = []"
  by (simp add: lookups_def)

lemma generate_miss_effects:
  assumes "allowed (checkRateLimit e prov)" and "cache_miss e question prov modelId customPersona"
  shows "\<exists>tail. trace (snd (generateInterviewResponse e question prov modelId customPersona w)) =
                  trace (snd (retryWithBackoff (providerCall e prov modelId) 3 1000
                                (admitted e question prov modelId customPersona w))) @ tail \<and>
                slept tail = []"
proof -
  obtain res w3 where loop: "retryWithBackoff (providerCall e prov modelId) 3 1000
                               (admitted e question prov modelId customPersona w) = (res, w3)"
    by (cases "retryWithBackoff (providerCall e prov modelId) 3 1000
                 (admitted e question prov modelId customPersona w)")
  show ?thesis
  proof (cases res)
    case (Inl message)
    with generate_miss_throws [OF assms, of w message w3] loop show ?thesis by simp
  next
    case (Inr r)
    with generate_miss_returns [OF assms, of w r w3] loop show ?thesis by simp
  qed
qed

lemma generate_effects:
  "\<exists>new. trace (snd (generateInterviewResponse e question prov modelId customPersona w)) = trace w @ new \<and>
         prefix (slept new) (backoffSchedule 3 1000)"
proof (cases "allowed (checkRateLimit e prov)")
  case False
  then show ?thesis
    by (simp add: generateInterviewResponse_def generate_try_rejected)
next
  case adm: True
  show ?thesis
  proof (cases "cache_miss e question prov modelId customPersona")
    case False
    then obtain r where "isCacheable e question"
      "getCachedAIResponse e question prov modelId customPersona = Some r"
      by (auto simp: cache_miss_def split: if_splits)
    with adm show ?thesis
      by (simp add: generateInterviewResponse_def generate_try_hit)
  next
    case miss: True
    from generate_miss_effects [OF adm miss, of w]
    obtain tail where tail:
      "trace (snd (generateInterviewResponse e question prov modelId customPersona w)) =
         trace (snd (retryWithBackoff (providerCall e prov modelId) 3 1000
                       (admitted e question prov modelId customPersona w))) @ tail"
      "slept tail = []"
      by auto
    from retry_effects [of e prov modelId 3 1000 "admitted e question prov modelId customPersona w"]
    obtain rest where rest:
      "trace (snd (retryWithBackoff (providerCall e prov modelId) 3 1000
                     (admitted e question prov modelId customPersona w))) =
         trace (admitted e question prov modelId customPersona w) @ Attempt # rest"
      "prefix (slept rest) (backoffSchedule 3 1000)"
      by auto
    have "trace (snd (generateInterviewResponse e question prov modelId customPersona w)) =
            trace w @ (RateLimitChecked prov # lookups e question prov modelId customPersona
                       @ Attempt # rest @ tail)"
      using tail(1) rest(1) by simp
    moreover have "prefix (slept (RateLimitChecked prov # lookups e question prov modelId customPersona
                       @ Attempt # rest @ tail)) (backoffSchedule 3 1000)"
      using tail(2) rest(2) by simp
    ultimately show ?thesis by blast
  qed
qed

section \<open>Rate limiting and the cache\<close>

text \<open>
  C5. When the rate limiter rejects the call, the pipeline returns its degraded response:
  the error string is the rejection reason, then \<^verbatim>\<open>. Please wait\<close>, the retry-after seconds
  and \<^verbatim>\<open>seconds and try again.\<close>; the only effect is the rate-limit check itself, so no
  provider adapter is invoked, and the cache is neither looked up nor written.
\<close>

theorem rate_limited_short_circuit:
  assumes "\<not> allowed (checkRateLimit e prov)"
  shows "fst (generateInterviewResponse e question prov modelId customPersona w) =
           Inr (fallbackResponse prov modelId (rateLimitMessage (checkRateLimit e prov))) \<and>
         error (fallbackResponse prov modelId (rateLimitMessage (checkRateLimit e prov))) =
           JStr (rateLimitMessage (checkRateLimit e prov)) \<and>
         str_includes (rateLimitMessage (checkRateLimit e prov)) (reason (checkRateLimit e prov)) \<and>
         str_includes (rateLimitMessage (checkRateLimit e prov))
           (show_nat (retryAfter (checkRateLimit e prov))) \<and>
         trace (snd (generateInterviewResponse e question prov modelId customPersona w)) =
           trace w @ [RateLimitChecked prov] \<and>
         groq_replies (snd (generateInterviewResponse e question prov modelId customPersona w)) =
           groq_replies w \<and>
         gemini_replies (snd (generateInterviewResponse e question prov modelId customPersona w)) =
           gemini_replies w"
proof -
  let ?rl = "checkRateLimit e prov"
  have "generateInterviewResponse e question prov modelId customPersona w =
          (Inr (fallbackResponse prov modelId (rateLimitMessage ?rl)), emit (RateLimitChecked prov) w)"
    using assms by (simp add: generateInterviewResponse_def generate_try_rejected)
  moreover have "error (fallbackResponse prov modelId (rateLimitMessage ?rl)) = JStr (rateLimitMessage ?rl)"
    by (simp add: fallbackResponse_def)
  moreover have "str_includes (rateLimitMessage ?rl) (reason ?rl)"
    unfolding rateLimitMessage_def by (rule str_includes_front)
  moreover have "str_includes (rateLimitMessage ?rl) (show_nat (retryAfter ?rl))"
    using str_includes_middle [of "reason ?rl @ js ''. Please wait ''" "show_nat (retryAfter ?rl)"
        "js '' seconds and try again.''"]
    by (simp add: rateLimitMessage_def)
  ultimately show ?thesis by simp
qed

theorem rate_limited_short_circuit_witness:
  "\<not> allowed (checkRateLimit (test_env\<lparr>checkRateLimit := \<lambda>p. rejecting\<rparr>) (js ''groq'')) \<and>
   fst (generateInterviewResponse (test_env\<lparr>checkRateLimit := \<lambda>p. rejecting\<rparr>) (js ''What is React?'')
       (js ''groq'') None None (failing_world (js ''timeout''))) =
     Inr (fallbackResponse (js ''groq'') None
            (js ''Rate limit exceeded. Please wait 60 seconds and try again.'')) \<and>
   trace (snd (generateInterviewResponse (test_env\<lparr>checkRateLimit := \<lambda>p. rejecting\<rparr>)
       (js ''What is React?'') (js ''groq'') None None (failing_world (js ''timeout'')))) =
     [RateLimitChecked (js ''groq'')]"
proof -
  have rl: "checkRateLimit (test_env\<lparr>checkRateLimit := \<lambda>p. rejecting\<rparr>) (js ''groq'') = rejecting"
    by simp
  have rej: "\<not> allowed (checkRateLimit (test_env\<lparr>checkRateLimit := \<lambda>p. rejecting\<rparr>) (js ''groq''))"
    by (simp add: rejecting_def)
  have "show_nat 60 = js ''60''"
    by (simp add: show_nat.simps js_def)
  then have msg: "rateLimitMessage rejecting = js ''Rate limit exceeded. Please wait 60 seconds and try again.''"
    by (simp add: rateLimitMessage_def rejecting_def js_def)
  have tr: "trace (failing_world (js ''timeout'')) = []"
    by (simp add: failing_world_def)
  from rate_limited_short_circuit [OF rej, of "js ''What is React?''" None None "failing_world (js ''timeout'')"]
  show ?thesis
    unfolding rl msg tr using rej by simp
qed

text \<open>
  C6. When the rate limiter has admitted the call, the question is cacheable and the cache
  lookup finds a response, the pipeline returns that response unchanged; the effects are
  the rate-limit check and then the cache lookup, in this order, and nothing else: no
  provider adapter is invoked and nothing is written to the cache.
\<close>

theorem cache_hit_returns_cached:
  assumes "allowed (checkRateLimit e prov)"
    and "isCacheable e question"
    and "getCachedAIResponse e question prov modelId customPersona = Some r"
  shows "fst (generateInterviewResponse e question prov modelId customPersona w) = Inr r \<and>
         trace (snd (generateInterviewResponse e question prov modelId customPersona w)) =
           trace w @ [RateLimitChecked prov, CacheLookup question prov modelId customPersona] \<and>
         groq_replies (snd (generateInterviewResponse e question prov modelId customPersona w)) =
           groq_replies w \<and>
         gemini_replies (snd (generateInterviewResponse e question prov modelId customPersona w)) =
           gemini_replies w"
  using assms by (simp add: generateInterviewResponse_def generate_try_hit)

theorem cache_hit_returns_cached_witness:
  "fst (generateInterviewResponse (test_env\<lparr>getCachedAIResponse := \<lambda>q p m c. Some cachedResponse\<rparr>)
          (js ''What is React?'') (js ''groq'') (Some (js ''test-model'')) None
          (failing_world (js ''timeout''))) = Inr cachedResponse \<and>
   trace (snd (generateInterviewResponse (test_env\<lparr>getCachedAIResponse := \<lambda>q p m c. Some cachedResponse\<rparr>)
          (js ''What is React?'') (js ''groq'') (Some (js ''test-model'')) None
          (failing_world (js ''timeout'')))) =
     [RateLimitChecked (js ''groq''),
      CacheLookup (js ''What is React?'') (js ''groq'') (Some (js ''test-model'')) None]"
proof -
  let ?e = "test_env\<lparr>getCachedAIResponse := \<lambda>q p m c. Some cachedResponse\<rparr>"
  have a: "allowed (checkRateLimit ?e (js ''groq''))"
    by (simp add: test_env_def admitting_def)
  have b: "isCacheable ?e (js ''What is React?'')"
    by (simp add: test_env_def)
  have c: "getCachedAIResponse ?e (js ''What is React?'') (js ''groq'') (Some (js ''test-model'')) None
             = Some cachedResponse"
    by simp
  have tr: "trace (failing_world (js ''timeout'')) = []"
    by (simp add: failing_world_def)
  from cache_hit_returns_cached [OF a b c, of "failing_world (js ''timeout'')"]
  show ?thesis unfolding tr by simp
qed

section \<open>The Gemini adapter\<close>

text \<open>
  C7. When the Gemini service replies and the reply, with its code fences removed and
  trimmed, is not valid JSON, the adapter returns a response and sets no error: the answer
  is the first 500 code units of the raw text, or the fixed sentence when the text is empty,
  and the three arrays are empty.
\<close>

theorem gemini_parse_fallback:
  assumes "genAI e"
    and "gemini_replies w 0 = Inr text"
    and "JSON_parse e (cleanedText text) = None"
  shows "\<exists>r. fst (generateGeminiResponse e modelId w) = Inr r \<and>
           answer r = JStr (if text = []
                            then js ''Based on my extensive experience in this field, I can provide detailed insights...''
                            else take 500 text) \<and>
           experience_mentioned r = JArr [] \<and>
           key_technologies r = JArr [] \<and>
           follow_up_topics r = JArr [] \<and>
           error r = JUndefined"
proof -
  from parse_fallback_validated [OF assms(3), of modelId]
  obtain r where r: "validatedResponse modelId (parsedResponse e text) = Inr r"
    and rest: "answer r = JStr (if text = []
                            then js ''Based on my extensive experience in this field, I can provide detailed insights...''
                            else take 500 text)"
      "experience_mentioned r = JArr []" "key_technologies r = JArr []"
      "follow_up_topics r = JArr []" "error r = JUndefined"
    by (elim exE conjE)
  have "fst (generateGeminiResponse e modelId w) = Inr r"
    using assms(1,2) r by (simp add: gemini_backend_replies)
  with rest show ?thesis by (intro exI [of _ r] conjI)
qed

theorem gemini_parse_fallback_witness:
  "genAI test_env \<and>
   gemini_replies (replying_world (js ''I would use React hooks.'')) 0 = Inr (js ''I would use React hooks.'') \<and>
   JSON_parse test_env (cleanedText (js ''I would use React hooks.'')) = None \<and>
   (\<exists>r. fst (generateGeminiResponse test_env (js ''gemini-2.0-flash-exp'')
              (replying_world (js ''I would use React hooks.''))) = Inr r \<and>
        answer r = JStr (js ''I would use React hooks.'') \<and>
        experience_mentioned r = JArr [] \<and> key_technologies r = JArr [] \<and>
        follow_up_topics r = JArr [] \<and> error r = JUndefined)"
proof -
  have a: "genAI test_env" by (simp add: test_env_def)
  have b: "gemini_replies (replying_world (js ''I would use React hooks.'')) 0 = Inr (js ''I would use React hooks.'')"
    by (simp add: replying_world_def)
  have c: "JSON_parse test_env (cleanedText (js ''I would use React hooks.'')) = None"
    by (simp add: test_env_def parse_example_def cleanedText_def trim_def isWhiteSpace_def js_def)
  have d: "(js ''I would use React hooks.'' = []) = False" by simp
  have e: "take 500 (js ''I would use React hooks.'') = js ''I would use React hooks.''"
    by (simp add: js_def)
  from gemini_parse_fallback [OF a b c, of "js ''gemini-2.0-flash-exp''"]
  have "\<exists>r. fst (generateGeminiResponse test_env (js ''gemini-2.0-flash-exp'')
              (replying_world (js ''I would use React hooks.''))) = Inr r \<and>
        answer r = JStr (js ''I would use React hooks.'') \<and>
        experience_mentioned r = JArr [] \<and> key_technologies r = JArr [] \<and>
        follow_up_topics r = JArr [] \<and> error r = JUndefined"
    unfolding d e if_False .
  with a b c show ?thesis by (intro conjI)
qed

text \<open>
  C9. The Gemini adapter never rejects: it always returns a response object. When the
  client is not initialised, or the call to the service raises an error (whatever its
  message, transient or not), the adapter's own \<^verbatim>\<open>catch\<close> returns the object with the error
  message in \<^verbatim>\<open>error\<close>, provider \<^verbatim>\<open>gemini\<close>, score 0 and a fixed, non-empty answer.
  So a pipeline call for provider \<^verbatim>\<open>gemini\<close> that reaches step 3 makes exactly one attempt
  and never sleeps: its effects are the rate-limit check, the cache lookup if the question is
  cacheable, one attempt with one adapter invocation, and the cache write if the question
  is cacheable.
\<close>

theorem gemini_never_rejects:
  "(\<exists>r. fst (generateGeminiResponse e modelId w) = Inr r) \<and>
   (\<not> genAI e \<longrightarrow>
      fst (generateGeminiResponse e modelId w) =
        Inr (geminiErrorResponse modelId (js ''Gemini client not initialized''))) \<and>
   (genAI e \<and> gemini_replies w 0 = Inl message \<longrightarrow>
      fst (generateGeminiResponse e modelId w) = Inr (geminiErrorResponse modelId message)) \<and>
   error (geminiErrorResponse modelId message) = JStr message \<and>
   provider (geminiErrorResponse modelId message) = JStr (js ''gemini'') \<and>
   score (geminiErrorResponse modelId message) = JNum (Finite 0) \<and>
   answer (geminiErrorResponse modelId message) =
     JStr (js ''I have extensive experience in this area. Let me share a specific example from my previous role...'') \<and>
   isNonEmptyString (answer (geminiErrorResponse modelId message)) \<and>
   (allowed (checkRateLimit e (js ''gemini'')) \<and>
    cache_miss e question (js ''gemini'') modelOpt customPersona \<longrightarrow>
      (\<exists>r. fst (generateInterviewResponse e question (js ''gemini'') modelOpt customPersona w) = Inr r \<and>
           trace (snd (generateInterviewResponse e question (js ''gemini'') modelOpt customPersona w)) =
             trace w @ RateLimitChecked (js ''gemini'')
               # lookups e question (js ''gemini'') modelOpt customPersona
               @ [Attempt, GeminiCalled (geminiModel e modelOpt)]
               @ writes e question r (js ''gemini'') modelOpt customPersona))"
proof -
  have returns: "\<exists>r. fst (generateGeminiResponse e modelId w) = Inr r"
    using gemini_returns [of e modelId w] by auto
  have uninit: "\<not> genAI e \<longrightarrow>
      fst (generateGeminiResponse e modelId w) =
        Inr (geminiErrorResponse modelId (js ''Gemini client not initialized''))"
    by (simp add: gemini_uninitialised)
  have throws: "genAI e \<and> gemini_replies w 0 = Inl message \<longrightarrow>
      fst (generateGeminiResponse e modelId w) = Inr (geminiErrorResponse modelId message)"
    by (simp add: gemini_backend_throws)
  have fields: "error (geminiErrorResponse modelId message) = JStr message"
    "provider (geminiErrorResponse modelId message) = JStr (js ''gemini'')"
    "score (geminiErrorResponse modelId message) = JNum (Finite 0)"
    "answer (geminiErrorResponse modelId message) =
       JStr (js ''I have extensive experience in this area. Let me share a specific example from my previous role...'')"
    "isNonEmptyString (answer (geminiErrorResponse modelId message))"
    by (simp_all add: geminiErrorResponse_def isNonEmptyString_def)
  have pipeline: "allowed (checkRateLimit e (js ''gemini'')) \<and>
    cache_miss e question (js ''gemini'') modelOpt customPersona \<longrightarrow>
      (\<exists>r. fst (generateInterviewResponse e question (js ''gemini'') modelOpt customPersona w) = Inr r \<and>
           trace (snd (generateInterviewResponse e question (js ''gemini'') modelOpt customPersona w)) =
             trace w @ RateLimitChecked (js ''gemini'')
               # lookups e question (js ''gemini'') modelOpt customPersona
               @ [Attempt, GeminiCalled (geminiModel e modelOpt)]
               @ writes e question r (js ''gemini'') modelOpt customPersona)"
  proof (intro impI, elim conjE)
    assume adm: "allowed (checkRateLimit e (js ''gemini''))"
      and miss: "cache_miss e question (js ''gemini'') modelOpt customPersona"
    let ?w2 = "emit Attempt (admitted e question (js ''gemini'') modelOpt customPersona w)"
    from gemini_returns [of e "geminiModel e modelOpt" ?w2]
    obtain r w' where run: "generateGeminiResponse e (geminiModel e modelOpt) ?w2 = (Inr r, w')"
      and tr: "trace w' = trace ?w2 @ [GeminiCalled (geminiModel e modelOpt)]"
      by (elim exE conjE)
    from gemini_pipeline [OF adm miss run] tr
    show "\<exists>r. fst (generateInterviewResponse e question (js ''gemini'') modelOpt customPersona w) = Inr r \<and>
           trace (snd (generateInterviewResponse e question (js ''gemini'') modelOpt customPersona w)) =
             trace w @ RateLimitChecked (js ''gemini'')
               # lookups e question (js ''gemini'') modelOpt customPersona
               @ [Attempt, GeminiCalled (geminiModel e modelOpt)]
               @ writes e question r (js ''gemini'') modelOpt customPersona"
      by (intro exI [of _ r]) (simp add: writes_def)
  qed
  from returns uninit throws fields pipeline show ?thesis by (intro conjI)
qed

theorem gemini_never_rejects_witness:
  "isRetryable (js ''503 Service Unavailable'') \<and>
   fst (generateGeminiResponse test_env (js ''gemini-2.0-flash-exp'')
          (failing_world (js ''503 Service Unavailable''))) =
     Inr (geminiErrorResponse (js ''gemini-2.0-flash-exp'') (js ''503 Service Unavailable'')) \<and>
   fst (generateGeminiResponse (test_env\<lparr>genAI := False\<rparr>) (js ''gemini-2.0-flash-exp'')
          (failing_world (js ''503 Service Unavailable''))) =
     Inr (geminiErrorResponse (js ''gemini-2.0-flash-exp'') (js ''Gemini client not initialized'')) \<and>
   (\<exists>r. fst (generateInterviewResponse test_env (js ''What is React?'') (js ''gemini'') None None
               (failing_world (js ''503 Service Unavailable''))) = Inr r \<and>
        trace (snd (generateInterviewResponse test_env (js ''What is React?'') (js ''gemini'') None None
               (failing_world (js ''503 Service Unavailable'')))) =
          [RateLimitChecked (js ''gemini''),
           CacheLookup (js ''What is React?'') (js ''gemini'') None None,
           Attempt,
           GeminiCalled (js ''gemini-2.0-flash-exp''),
           CacheWrite (js ''What is React?'') r (js ''gemini'') None None])"
proof -
  let ?m = "js ''503 Service Unavailable''"
  let ?w = "failing_world ?m"
  let ?q = "js ''What is React?''"
  have retryable: "isRetryable ?m"
    by (simp add: isRetryable_def js_def)
  have init: "genAI test_env" and uninit: "\<not> genAI (test_env\<lparr>genAI := False\<rparr>)"
    by (simp_all add: test_env_def)
  have reply: "gemini_replies ?w 0 = Inl ?m" and tr: "trace ?w = []"
    by (simp_all add: failing_world_def)
  have adm: "allowed (checkRateLimit test_env (js ''gemini''))"
    by (simp add: test_env_def admitting_def)
  have miss: "cache_miss test_env ?q (js ''gemini'') None None"
    by (simp add: cache_miss_def test_env_def)
  have lk: "lookups test_env ?q (js ''gemini'') None None = [CacheLookup ?q (js ''gemini'') None None]"
    by (simp add: lookups_def test_env_def)
  have wr: "writes test_env ?q r (js ''gemini'') None None = [CacheWrite ?q r (js ''gemini'') None None]" for r
    by (simp add: writes_def test_env_def)
  have gm: "geminiModel test_env None = js ''gemini-2.0-flash-exp''"
    by (simp add: geminiModel_def test_env_def)
  note T = gemini_never_rejects [of test_env "js ''gemini-2.0-flash-exp''" ?w ?m ?q None None]
  note U = gemini_never_rejects [of "test_env\<lparr>genAI := False\<rparr>" "js ''gemini-2.0-flash-exp''" ?w ?m ?q None None]
  from T [THEN conjunct2, THEN conjunct2, THEN conjunct1] init reply
  have a: "fst (generateGeminiResponse test_env (js ''gemini-2.0-flash-exp'') ?w) =
             Inr (geminiErrorResponse (js ''gemini-2.0-flash-exp'') ?m)"
    by (simp only: simp_thms)
  from U [THEN conjunct2, THEN conjunct1] uninit
  have b: "fst (generateGeminiResponse (test_env\<lparr>genAI := False\<rparr>) (js ''gemini-2.0-flash-exp'') ?w) =
             Inr (geminiErrorResponse (js ''gemini-2.0-flash-exp'') (js ''Gemini client not initialized''))"
    by (simp only: simp_thms)
  from T [THEN conjunct2, THEN conjunct2, THEN conjunct2, THEN conjunct2, THEN conjunct2,
          THEN conjunct2, THEN conjunct2, THEN conjunct2] adm miss
  have c: "\<exists>r. fst (generateInterviewResponse test_env ?q (js ''gemini'') None None ?w) = Inr r \<and>
        trace (snd (generateInterviewResponse test_env ?q (js ''gemini'') None None ?w)) =
          [RateLimitChecked (js ''gemini''), CacheLookup ?q (js ''gemini'') None None, Attempt,
           GeminiCalled (js ''gemini-2.0-flash-exp''), CacheWrite ?q r (js ''gemini'') None None]"
    by (simp only: simp_thms lk wr gm tr append.simps)
  from retryable a b c show ?thesis by (intro conjI)
qed

text \<open>
  C10. For provider \<^verbatim>\<open>gemini\<close>, a cacheable question, an admitted call, a cache miss and
  a service call that raises an error, the pipeline takes the adapter's error-bearing object
  for a success: it writes that object (error set, the three arrays empty) to the cache with
  \<^verbatim>\<open>cacheAIResponse\<close> and returns it. A later call that finds this object in the cache
  returns it as its answer.
\<close>

theorem gemini_failure_is_cached:
  assumes "allowed (checkRateLimit e (js ''gemini''))"
    and "isCacheable e question"
    and "getCachedAIResponse e question (js ''gemini'') modelOpt customPersona = None"
    and "genAI e"
    and "gemini_replies w 0 = Inl message"
  shows "fst (generateInterviewResponse e question (js ''gemini'') modelOpt customPersona w) =
           Inr (geminiErrorResponse (geminiModel e modelOpt) message) \<and>
         trace (snd (generateInterviewResponse e question (js ''gemini'') modelOpt customPersona w)) =
           trace w @
             [RateLimitChecked (js ''gemini''),
              CacheLookup question (js ''gemini'') modelOpt customPersona,
              Attempt,
              GeminiCalled (geminiModel e modelOpt),
              CacheWrite question (geminiErrorResponse (geminiModel e modelOpt) message)
                (js ''gemini'') modelOpt customPersona] \<and>
         error (geminiErrorResponse (geminiModel e modelOpt) message) = JStr message \<and>
         experience_mentioned (geminiErrorResponse (geminiModel e modelOpt) message) = JArr [] \<and>
         key_technologies (geminiErrorResponse (geminiModel e modelOpt) message) = JArr [] \<and>
         follow_up_topics (geminiErrorResponse (geminiModel e modelOpt) message) = JArr [] \<and>
         (\<forall>e' w'. allowed (checkRateLimit e' (js ''gemini'')) \<and> isCacheable e' question \<and>
                  getCachedAIResponse e' question (js ''gemini'') modelOpt customPersona =
                    Some (geminiErrorResponse (geminiModel e modelOpt) message) \<longrightarrow>
                  fst (generateInterviewResponse e' question (js ''gemini'') modelOpt customPersona w') =
                    Inr (geminiErrorResponse (geminiModel e modelOpt) message))"
proof -
  let ?r = "geminiErrorResponse (geminiModel e modelOpt) message"
  let ?w2 = "emit Attempt (admitted e question (js ''gemini'') modelOpt customPersona w)"
  have miss: "cache_miss e question (js ''gemini'') modelOpt customPersona"
    using assms(2,3) by (simp add: cache_miss_def)
  have "gemini_replies ?w2 0 = Inl message"
    using assms(5) by simp
  with assms(4)
  have run: "generateGeminiResponse e (geminiModel e modelOpt) ?w2 =
               (Inr ?r, next_gemini (emit (GeminiCalled (geminiModel e modelOpt)) ?w2))"
    by (rule gemini_backend_throws)
  from gemini_pipeline [OF assms(1) miss run] assms(2)
  have whole: "generateInterviewResponse e question (js ''gemini'') modelOpt customPersona w =
          (Inr ?r, emit (CacheWrite question ?r (js ''gemini'') modelOpt customPersona)
                     (next_gemini (emit (GeminiCalled (geminiModel e modelOpt)) ?w2)))"
    by simp
  have result: "fst (generateInterviewResponse e question (js ''gemini'') modelOpt customPersona w) = Inr ?r"
    by (simp add: whole)
  have effects: "trace (snd (generateInterviewResponse e question (js ''gemini'') modelOpt customPersona w)) =
           trace w @
             [RateLimitChecked (js ''gemini''),
              CacheLookup question (js ''gemini'') modelOpt customPersona,
              Attempt,
              GeminiCalled (geminiModel e modelOpt),
              CacheWrite question ?r (js ''gemini'') modelOpt customPersona]"
    using assms(2) by (simp add: whole lookups_def)
  have fields: "error ?r = JStr message" "experience_mentioned ?r = JArr []"
    "key_technologies ?r = JArr []" "follow_up_topics ?r = JArr []"
    by (simp_all add: geminiErrorResponse_def)
  have later: "\<forall>e' w'. allowed (checkRateLimit e' (js ''gemini'')) \<and> isCacheable e' question \<and>
                  getCachedAIResponse e' question (js ''gemini'') modelOpt customPersona = Some ?r \<longrightarrow>
                  fst (generateInterviewResponse e' question (js ''gemini'') modelOpt customPersona w') = Inr ?r"
    by (simp add: generateInterviewResponse_def generate_try_hit)
  from result effects fields later show ?thesis by (intro conjI)
qed

theorem gemini_failure_is_cached_witness:
  "fst (generateInterviewResponse test_env (js ''What is React?'') (js ''gemini'') None None
          (failing_world (js ''fetch failed''))) =
     Inr (geminiErrorResponse (js ''gemini-2.0-flash-exp'') (js ''fetch failed'')) \<and>
   trace (snd (generateInterviewResponse test_env (js ''What is React?'') (js ''gemini'') None None
          (failing_world (js ''fetch failed'')))) =
     [RateLimitChecked (js ''gemini''),
      CacheLookup (js ''What is React?'') (js ''gemini'') None None,
      Attempt,
      GeminiCalled (js ''gemini-2.0-flash-exp''),
      CacheWrite (js ''What is React?'')
        (geminiErrorResponse (js ''gemini-2.0-flash-exp'') (js ''fetch failed'')) (js ''gemini'') None None] \<and>
   fst (generateInterviewResponse
          (test_env\<lparr>getCachedAIResponse := \<lambda>q p m c.
              Some (geminiErrorResponse (js ''gemini-2.0-flash-exp'') (js ''fetch failed''))\<rparr>)
          (js ''What is React?'') (js ''gemini'') None None (failing_world (js ''fetch failed''))) =
     Inr (geminiErrorResponse (js ''gemini-2.0-flash-exp'') (js ''fetch failed''))"
proof -
  let ?m = "js ''fetch failed''"
  let ?w = "failing_world ?m"
  let ?q = "js ''What is React?''"
  let ?r = "geminiErrorResponse (js ''gemini-2.0-flash-exp'') ?m"
  let ?e' = "test_env\<lparr>getCachedAIResponse := \<lambda>q p m c. Some ?r\<rparr>"
  have adm: "allowed (checkRateLimit test_env (js ''gemini''))"
    by (simp add: test_env_def admitting_def)
  have cacheable: "isCacheable test_env ?q"
    by (simp add: test_env_def)
  have miss: "getCachedAIResponse test_env ?q (js ''gemini'') None None = None"
    by (simp add: test_env_def)
  have init: "genAI test_env"
    by (simp add: test_env_def)
  have reply: "gemini_replies ?w 0 = Inl ?m" and tr: "trace ?w = []"
    by (simp_all add: failing_world_def)
  have gm: "geminiModel test_env None = js ''gemini-2.0-flash-exp''"
    by (simp add: geminiModel_def test_env_def)
  have later: "allowed (checkRateLimit ?e' (js ''gemini'')) \<and> isCacheable ?e' ?q \<and>
                 getCachedAIResponse ?e' ?q (js ''gemini'') None None = Some ?r"
    by (simp add: test_env_def admitting_def)
  note T = gemini_failure_is_cached [OF adm cacheable miss init reply, unfolded gm tr append_Nil]
  from T [THEN conjunct2, THEN conjunct2, THEN conjunct2, THEN conjunct2, THEN conjunct2,
          THEN conjunct2, THEN spec, THEN spec, THEN mp, OF later]
  have c: "fst (generateInterviewResponse ?e' ?q (js ''gemini'') None None ?w) = Inr ?r" .
  from T [THEN conjunct1] T [THEN conjunct2, THEN conjunct1] c show ?thesis by (intro conjI)
qed

section \<open>The retry policy\<close>

text \<open>
  C2. The retry loop is a total function, so it terminates. In a pipeline call for provider
  \<^verbatim>\<open>groq\<close> that reaches step 3: when the adapter raises an error on each of its first four
  invocations and the first three errors are retryable, the adapter is invoked exactly four
  times (one attempt and three retries, with the three sleeps between them) and the fourth
  error becomes the pipeline's degraded response; when the first invocation raises an error
  that is not retryable, the adapter is invoked exactly once and that error becomes the
  degraded response. Nothing is written to the cache in either case.
\<close>

theorem retry_attempts:
  assumes "allowed (checkRateLimit e (js ''groq''))"
    and "cache_miss e question (js ''groq'') modelId customPersona"
  shows "(groq_replies w 0 = Inl m0 \<and> groq_replies w 1 = Inl m1 \<and> groq_replies w 2 = Inl m2 \<and>
          groq_replies w 3 = Inl m3 \<and> isRetryable m0 \<and> isRetryable m1 \<and> isRetryable m2 \<longrightarrow>
            fst (generateInterviewResponse e question (js ''groq'') modelId customPersona w) =
              Inr (fallbackResponse (js ''groq'') modelId m3) \<and>
            trace (snd (generateInterviewResponse e question (js ''groq'') modelId customPersona w)) =
              trace w @ RateLimitChecked (js ''groq'')
                # lookups e question (js ''groq'') modelId customPersona
                @ [Attempt, GroqCalled, Slept 1000,
                   Attempt, GroqCalled, Slept 2000,
                   Attempt, GroqCalled, Slept 4000,
                   Attempt, GroqCalled]) \<and>
         (groq_replies w 0 = Inl m0 \<and> \<not> isRetryable m0 \<longrightarrow>
            fst (generateInterviewResponse e question (js ''groq'') modelId customPersona w) =
              Inr (fallbackResponse (js ''groq'') modelId m0) \<and>
            trace (snd (generateInterviewResponse e question (js ''groq'') modelId customPersona w)) =
              trace w @ RateLimitChecked (js ''groq'')
                # lookups e question (js ''groq'') modelId customPersona
                @ [Attempt, GroqCalled])"
proof (intro conjI impI; elim conjE)
  let ?fn = "providerCall e (js ''groq'') modelId"
  let ?w2 = "admitted e question (js ''groq'') modelId customPersona w"
  {
    assume r: "groq_replies w 0 = Inl m0" "groq_replies w 1 = Inl m1" "groq_replies w 2 = Inl m2"
      "groq_replies w 3 = Inl m3"
      and t: "isRetryable m0" "isRetryable m1" "isRetryable m2"
    let ?loop = "retryWithBackoff ?fn 3 1000 ?w2"
    have r2: "groq_replies ?w2 0 = Inl m0" "groq_replies ?w2 1 = Inl m1" "groq_replies ?w2 2 = Inl m2"
      "groq_replies ?w2 3 = Inl m3"
      using r by simp_all
    note ex = groq_exhausts [OF r2 t, of e modelId]
    from ex(1) have loop: "?loop = (Inl m3, snd ?loop)"
      by (simp add: prod_eq_iff)
    from generate_miss_throws [OF assms loop]
    have whole: "generateInterviewResponse e question (js ''groq'') modelId customPersona w =
                   (Inr (fallbackResponse (js ''groq'') modelId m3), snd ?loop)" .
    show "fst (generateInterviewResponse e question (js ''groq'') modelId customPersona w) =
              Inr (fallbackResponse (js ''groq'') modelId m3)"
      by (simp add: whole)
    show "trace (snd (generateInterviewResponse e question (js ''groq'') modelId customPersona w)) =
              trace w @ RateLimitChecked (js ''groq'')
                # lookups e question (js ''groq'') modelId customPersona
                @ [Attempt, GroqCalled, Slept 1000,
                   Attempt, GroqCalled, Slept 2000,
                   Attempt, GroqCalled, Slept 4000,
                   Attempt, GroqCalled]"
      by (simp add: whole ex(2))
  }
  {
    assume r: "groq_replies w 0 = Inl m0" and t: "\<not> isRetryable m0"
    have r2: "groq_replies ?w2 0 = Inl m0" using r by simp
    have loop: "retryWithBackoff ?fn 3 1000 ?w2 = (Inl m0, next_groq (emit GroqCalled (emit Attempt ?w2)))"
      using groq_retry_stop [OF r2, of 3 e modelId 1000] t by simp
    from generate_miss_throws [OF assms loop]
    have whole: "generateInterviewResponse e question (js ''groq'') modelId customPersona w =
                   (Inr (fallbackResponse (js ''groq'') modelId m0),
                    next_groq (emit GroqCalled (emit Attempt ?w2)))" .
    show "fst (generateInterviewResponse e question (js ''groq'') modelId customPersona w) =
              Inr (fallbackResponse (js ''groq'') modelId m0)"
      by (simp add: whole)
    show "trace (snd (generateInterviewResponse e question (js ''groq'') modelId customPersona w)) =
              trace w @ RateLimitChecked (js ''groq'')
                # lookups e question (js ''groq'') modelId customPersona
                @ [Attempt, GroqCalled]"
      by (simp add: whole)
  }
qed

theorem retry_attempts_witness:
  "isRetryable (js ''Request timeout'') \<and>
   fst (generateInterviewResponse test_env (js ''What is React?'') (js ''groq'') None None
          (failing_world (js ''Request timeout''))) =
     Inr (fallbackResponse (js ''groq'') None (js ''Request timeout'')) \<and>
   trace (snd (generateInterviewResponse test_env (js ''What is React?'') (js ''groq'') None None
          (failing_world (js ''Request timeout'')))) =
     [RateLimitChecked (js ''groq''), CacheLookup (js ''What is React?'') (js ''groq'') None None,
      Attempt, GroqCalled, Slept 1000, Attempt, GroqCalled, Slept 2000,
      Attempt, GroqCalled, Slept 4000, Attempt, GroqCalled] \<and>
   \<not> isRetryable (js ''Invalid API Key'') \<and>
   fst (generateInterviewResponse test_env (js ''What is React?'') (js ''groq'') None None
          (failing_world (js ''Invalid API Key''))) =
     Inr (fallbackResponse (js ''groq'') None (js ''Invalid API Key'')) \<and>
   trace (snd (generateInterviewResponse test_env (js ''What is React?'') (js ''groq'') None None
          (failing_world (js ''Invalid API Key'')))) =
     [RateLimitChecked (js ''groq''), CacheLookup (js ''What is React?'') (js ''groq'') None None,
      Attempt, GroqCalled]"
proof -
  let ?q = "js ''What is React?''"
  let ?t = "js ''Request timeout''"
  let ?k = "js ''Invalid API Key''"
  have adm: "allowed (checkRateLimit test_env (js ''groq''))"
    by (simp add: test_env_def admitting_def)
  have miss: "cache_miss test_env ?q (js ''groq'') None None"
    by (simp add: cache_miss_def test_env_def)
  have lk: "lookups test_env ?q (js ''groq'') None None = [CacheLookup ?q (js ''groq'') None None]"
    by (simp add: lookups_def test_env_def)
  have transient: "isRetryable ?t"
    by (simp add: isRetryable_def js_def)
  have permanent: "\<not> isRetryable ?k"
    by (simp add: isRetryable_def js_def)
  have replies: "groq_replies (failing_world m) k = Inl m" and tr: "trace (failing_world m) = []" for m k
    by (simp_all add: failing_world_def)
  note T = retry_attempts [OF adm miss, of "failing_world ?t" ?t ?t ?t ?t, THEN conjunct1, unfolded replies tr lk]
  note U = retry_attempts [OF adm miss, of "failing_world ?k" ?k ?k ?k ?k, THEN conjunct2, unfolded replies tr lk]
  from T transient
  have a: "fst (generateInterviewResponse test_env ?q (js ''groq'') None None (failing_world ?t)) =
             Inr (fallbackResponse (js ''groq'') None ?t) \<and>
           trace (snd (generateInterviewResponse test_env ?q (js ''groq'') None None (failing_world ?t))) =
             [RateLimitChecked (js ''groq''), CacheLookup ?q (js ''groq'') None None,
              Attempt, GroqCalled, Slept 1000, Attempt, GroqCalled, Slept 2000,
              Attempt, GroqCalled, Slept 4000, Attempt, GroqCalled]"
    by (simp only: simp_thms append.simps)
  from U permanent
  have b: "fst (generateInterviewResponse test_env ?q (js ''groq'') None None (failing_world ?k)) =
             Inr (fallbackResponse (js ''groq'') None ?k) \<and>
           trace (snd (generateInterviewResponse test_env ?q (js ''groq'') None None (failing_world ?k))) =
             [RateLimitChecked (js ''groq''), CacheLookup ?q (js ''groq'') None None,
              Attempt, GroqCalled]"
    by (simp only: simp_thms append.simps)
  from transient a permanent b show ?thesis by (simp only: simp_thms)
qed

text \<open>
  C3. Let an attempt of the provider call fail with an error message. The loop sleeps and
  makes another attempt if and only if retries remain and the message is retryable, that
  is, contains one of \<^verbatim>\<open>timeout\<close>, \<^verbatim>\<open>ECONNRESET\<close>, \<^verbatim>\<open>ETIMEDOUT\<close>, \<^verbatim>\<open>429\<close>, \<^verbatim>\<open>503\<close>,
  \<^verbatim>\<open>500\<close>; in that case it continues with one retry less and the doubled delay. Otherwise
  the loop ends at once with that error: no sleep and no further attempt.
\<close>

theorem retry_iff_transient:
  assumes "providerCall e prov modelId (emit Attempt w) = (Inl message, w')"
  shows "(isRetryable message \<longleftrightarrow>
            sublist (js ''timeout'') message \<or> sublist (js ''ECONNRESET'') message \<or>
            sublist (js ''ETIMEDOUT'') message \<or> sublist (js ''429'') message \<or>
            sublist (js ''503'') message \<or> sublist (js ''500'') message) \<and>
         ((\<exists>rest. trace (snd (retryWithBackoff (providerCall e prov modelId) retries delay w)) =
                    trace w' @ Slept delay # Attempt # rest)
            \<longleftrightarrow> retries \<noteq> 0 \<and> isRetryable message) \<and>
         (retries \<noteq> 0 \<and> isRetryable message \<longrightarrow>
            retryWithBackoff (providerCall e prov modelId) retries delay w =
              retryWithBackoff (providerCall e prov modelId) (retries - 1) (min (delay * 2) 10000)
                (emit (Slept delay) w')) \<and>
         (\<not> (retries \<noteq> 0 \<and> isRetryable message) \<longrightarrow>
            retryWithBackoff (providerCall e prov modelId) retries delay w = (Inl message, w'))"
proof -
  let ?fn = "providerCall e prov modelId"
  have classes: "isRetryable message \<longleftrightarrow>
            sublist (js ''timeout'') message \<or> sublist (js ''ECONNRESET'') message \<or>
            sublist (js ''ETIMEDOUT'') message \<or> sublist (js ''429'') message \<or>
            sublist (js ''503'') message \<or> sublist (js ''500'') message"
    by (simp add: isRetryable_def str_includes_sublist)
  have again: "retryWithBackoff ?fn retries delay w =
              retryWithBackoff ?fn (retries - 1) (min (delay * 2) 10000) (emit (Slept delay) w')"
    if "retries \<noteq> 0 \<and> isRetryable message"
    using retry_again [of ?fn w message w' retries delay] assms that by simp
  have stop: "retryWithBackoff ?fn retries delay w = (Inl message, w')"
    if "\<not> (retries \<noteq> 0 \<and> isRetryable message)"
    using retry_gives_up [of ?fn w message w' retries delay] assms that by simp
  have "(\<exists>rest. trace (snd (retryWithBackoff ?fn retries delay w)) =
                    trace w' @ Slept delay # Attempt # rest)
            \<longleftrightarrow> retries \<noteq> 0 \<and> isRetryable message"
  proof (cases "retries \<noteq> 0 \<and> isRetryable message")
    case True
    from retry_effects [of e prov modelId "retries - 1" "min (delay * 2) 10000" "emit (Slept delay) w'"]
    obtain rest where
      "trace (snd (retryWithBackoff ?fn (retries - 1) (min (delay * 2) 10000) (emit (Slept delay) w'))) =
         trace (emit (Slept delay) w') @ Attempt # rest"
      by auto
    then have "trace (snd (retryWithBackoff ?fn retries delay w)) =
                 trace w' @ Slept delay # Attempt # rest"
      by (simp add: again [OF True])
    with True show ?thesis by blast
  next
    case False
    then have "trace (snd (retryWithBackoff ?fn retries delay w)) = trace w'"
      by (simp add: stop)
    with False show ?thesis by simp
  qed
  with classes again stop show ?thesis by blast
qed

theorem retry_iff_transient_witness:
  "providerCall test_env (js ''groq'') None (emit Attempt (failing_world (js ''read ECONNRESET''))) =
     (Inl (js ''read ECONNRESET''),
      next_groq (emit GroqCalled (emit Attempt (failing_world (js ''read ECONNRESET''))))) \<and>
   isRetryable (js ''read ECONNRESET'') \<and>
   retryWithBackoff (providerCall test_env (js ''groq'') None) 3 1000 (failing_world (js ''read ECONNRESET'')) =
     retryWithBackoff (providerCall test_env (js ''groq'') None) 2 2000
       (emit (Slept 1000)
          (next_groq (emit GroqCalled (emit Attempt (failing_world (js ''read ECONNRESET'')))))) \<and>
   providerCall test_env (js ''groq'') None (emit Attempt (failing_world (js ''Invalid API Key''))) =
     (Inl (js ''Invalid API Key''),
      next_groq (emit GroqCalled (emit Attempt (failing_world (js ''Invalid API Key''))))) \<and>
   \<not> isRetryable (js ''Invalid API Key'') \<and>
   retryWithBackoff (providerCall test_env (js ''groq'') None) 3 1000 (failing_world (js ''Invalid API Key'')) =
     (Inl (js ''Invalid API Key''),
      next_groq (emit GroqCalled (emit Attempt (failing_world (js ''Invalid API Key'')))))"
proof -
  let ?t = "js ''read ECONNRESET''"
  let ?k = "js ''Invalid API Key''"
  have call: "providerCall test_env (js ''groq'') None (emit Attempt (failing_world m)) =
                (Inl m, next_groq (emit GroqCalled (emit Attempt (failing_world m))))" for m
    by (rule providerCall_groq_throws) (simp add: failing_world_def)
  have transient: "isRetryable ?t"
    by (simp add: isRetryable_def js_def)
  have permanent: "\<not> isRetryable ?k"
    by (simp add: isRetryable_def js_def)
  from retry_iff_transient [OF call [of ?t], of 3 1000, THEN conjunct2, THEN conjunct2, THEN conjunct1]
    transient
  have a: "retryWithBackoff (providerCall test_env (js ''groq'') None) 3 1000 (failing_world ?t) =
     retryWithBackoff (providerCall test_env (js ''groq'') None) 2 2000
       (emit (Slept 1000) (next_groq (emit GroqCalled (emit Attempt (failing_world ?t)))))"
    by simp
  from retry_iff_transient [OF call [of ?k], of 3 1000, THEN conjunct2, THEN conjunct2, THEN conjunct2]
    permanent
  have b: "retryWithBackoff (providerCall test_env (js ''groq'') None) 3 1000 (failing_world ?k) =
     (Inl ?k, next_groq (emit GroqCalled (emit Attempt (failing_world ?k))))"
    by simp
  from call [of ?t] transient a call [of ?k] permanent b show ?thesis by (intro conjI)
qed

text \<open>
  C4, as the code has it. Whatever the inputs, the delays slept during a pipeline call are
  an initial part of 1000, 2000, 4000 milliseconds, each the double of the one before: one
  sleep before each of the at most three retries. In general the loop, started with some
  number of retries and some delay, sleeps an initial part of the schedule that doubles the
  delay and caps it at 10000. From 1000 that schedule continues with 8000, a delay that is
  computed for the fourth attempt but never slept, because no retry remains after it; the cap
  would only apply from a fifth delay on.
\<close>

theorem backoff_delays:
  "(\<exists>new. trace (snd (generateInterviewResponse e question prov modelId customPersona w)) =
            trace w @ new \<and>
          prefix (slept new) [1000, 2000, 4000]) \<and>
   (\<exists>rest. trace (snd (retryWithBackoff (providerCall e prov modelId) retries delay w)) =
             trace w @ Attempt # rest \<and>
           prefix (slept rest) (backoffSchedule retries delay)) \<and>
   backoffSchedule (maxRetries RETRY_CONFIG) (initialDelay RETRY_CONFIG) = [1000, 2000, 4000] \<and>
   backoffSchedule (Suc (maxRetries RETRY_CONFIG)) (initialDelay RETRY_CONFIG) =
     [1000, 2000, 4000, 8000] \<and>
   backoffSchedule 6 (initialDelay RETRY_CONFIG) = [1000, 2000, 4000, 8000, 10000, 10000]"
proof -
  have three: "backoffSchedule 3 1000 = [1000, 2000, 4000]"
    by (simp add: numeral_3_eq_3 RETRY_CONFIG_def)
  have four: "backoffSchedule (Suc 3) 1000 = [1000, 2000, 4000, 8000]"
    by (simp add: numeral_3_eq_3 RETRY_CONFIG_def)
  have six: "backoffSchedule 6 1000 = [1000, 2000, 4000, 8000, 10000, 10000]"
    by (simp add: eval_nat_numeral RETRY_CONFIG_def)
  from generate_effects [of e question prov modelId customPersona w]
    retry_effects [of e prov modelId retries delay w] three four six
  show ?thesis by (simp add: RETRY_CONFIG_def)
qed

theorem backoff_delays_witness:
  "\<exists>new. trace (snd (generateInterviewResponse test_env (js ''What is React?'') (js ''groq'') None None
                       (failing_world (js ''Request timeout'')))) =
            trace (failing_world (js ''Request timeout'')) @ new \<and>
          prefix (slept new) [1000, 2000, 4000]"
  using backoff_delays [of test_env "js ''What is React?''" "js ''groq''" None None
      "failing_world (js ''Request timeout'')" 3 1000]
  by (rule conjunct1)

text \<open>
  C4, as the specification states it, fails: when every attempt times out, all three retries
  are taken and the delays slept are 1000, 2000 and 4000 milliseconds; no sleep of 8000
  milliseconds takes place.
\<close>

theorem backoff_delays_counterexample:
  "slept (trace (snd (generateInterviewResponse test_env (js ''What is React?'') (js ''groq'') None None
                        (failing_world (js ''Request timeout''))))) = [1000, 2000, 4000] \<and>
   8000 \<notin> set (slept (trace (snd (generateInterviewResponse test_env (js ''What is React?'')
                        (js ''groq'') None None (failing_world (js ''Request timeout''))))))"
proof -
  let ?q = "js ''What is React?''"
  let ?t = "js ''Request timeout''"
  let ?w2 = "admitted test_env ?q (js ''groq'') None None (failing_world ?t)"
  let ?loop = "retryWithBackoff (providerCall test_env (js ''groq'') None) 3 1000 ?w2"
  have adm: "allowed (checkRateLimit test_env (js ''groq''))"
    by (simp add: test_env_def admitting_def)
  have miss: "cache_miss test_env ?q (js ''groq'') None None"
    by (simp add: cache_miss_def test_env_def)
  have transient: "isRetryable ?t"
    by (simp add: isRetryable_def js_def)
  have replies: "groq_replies ?w2 k = Inl ?t" for k
    by (simp add: failing_world_def)
  have tr: "trace (failing_world ?t) = []"
    by (simp add: failing_world_def)
  note ex = groq_exhausts [OF replies replies replies replies transient transient transient, of test_env None]
  from ex(1) have loop: "?loop = (Inl ?t, snd ?loop)"
    by (simp add: prod_eq_iff)
  from generate_miss_throws [OF adm miss loop]
  have "trace (snd (generateInterviewResponse test_env ?q (js ''groq'') None None (failing_world ?t))) =
          trace (snd ?loop)"
    by simp
  then have "slept (trace (snd (generateInterviewResponse test_env ?q (js ''groq'') None None
                                   (failing_world ?t)))) = [1000, 2000, 4000]"
    by (simp add: ex(2) tr)
  then show ?thesis by simp
qed

section \<open>Unknown providers\<close>

text \<open>
  C8. An unknown provider is to be rejected at once, with the retried function attempted
  exactly once. The code misses this for a provider whose name contains one of the transient
  markers: the error message contains the provider's name, and retryable errors are
  recognised by a substring of the message. For the provider
  \<^verbatim>\<open>openai-500\<close> the message \<^verbatim>\<open>Unknown provider: openai-500\<close> contains \<^verbatim>\<open>500\<close>, so the
  retried function is attempted four times, with three sleeps, before the degraded response
  is returned.
\<close>

theorem unknown_provider_counterexample:
  "js ''openai-500'' \<noteq> js ''groq'' \<and> js ''openai-500'' \<noteq> js ''gemini'' \<and>
   trace (snd (generateInterviewResponse test_env (js ''Test question'') (js ''openai-500'') None None
          (failing_world (js ''Request timeout'')))) =
     [RateLimitChecked (js ''openai-500''),
      CacheLookup (js ''Test question'') (js ''openai-500'') None None,
      Attempt, Slept 1000, Attempt, Slept 2000, Attempt, Slept 4000, Attempt]"
proof -
  let ?p = "js ''openai-500''"
  let ?q = "js ''Test question''"
  let ?w = "failing_world (js ''Request timeout'')"
  let ?w2 = "admitted test_env ?q ?p None None ?w"
  let ?loop = "retryWithBackoff (providerCall test_env ?p None) 3 1000 ?w2"
  have unknown: "?p \<noteq> js ''groq''" "?p \<noteq> js ''gemini''"
    by (simp_all add: js_def)
  have adm: "allowed (checkRateLimit test_env ?p)"
    by (simp add: test_env_def admitting_def)
  have miss: "cache_miss test_env ?q ?p None None"
    by (simp add: cache_miss_def test_env_def)
  have transient: "isRetryable (js ''Unknown provider: '' @ ?p)"
    by (simp add: isRetryable_def js_def)
  have lk: "lookups test_env ?q ?p None None = [CacheLookup ?q ?p None None]"
    by (simp add: lookups_def test_env_def)
  have tr: "trace ?w = []"
    by (simp add: failing_world_def)
  note ex = unknown_exhausts [OF unknown transient, of test_env None ?w2]
  from ex(1) have loop: "?loop = (Inl (js ''Unknown provider: '' @ ?p), snd ?loop)"
    by (simp add: prod_eq_iff)
  from generate_miss_throws [OF adm miss loop]
  have "trace (snd (generateInterviewResponse test_env ?q ?p None None ?w)) = trace (snd ?loop)"
    by simp
  also have "\<dots> = [RateLimitChecked ?p, CacheLookup ?q ?p None None,
                     Attempt, Slept 1000, Attempt, Slept 2000, Attempt, Slept 4000, Attempt]"
    unfolding ex(2) by (simp add: lk tr)
  finally show ?thesis using unknown by simp
qed

text \<open>
  What does hold for every provider other than \<^verbatim>\<open>groq\<close> and \<^verbatim>\<open>gemini\<close>: no provider
  adapter is ever invoked. When the rate limiter admits the call and the cache gives no
  hit, the pipeline returns its degraded response with the error
  \<^verbatim>\<open>Unknown provider: \<close> followed by the provider, and with the provider echoed in the
  \<^verbatim>\<open>provider\<close> field. When, besides, that error message is not retryable (the provider's
  name contains none of the six transient markers), exactly one attempt is made, with no
  retry and no sleep.
\<close>

theorem unknown_provider_rejected:
  assumes "prov \<noteq> js ''groq''" and "prov \<noteq> js ''gemini''"
  shows "(\<exists>new. trace (snd (generateInterviewResponse e question prov modelId customPersona w)) =
                  trace w @ new \<and>
                GroqCalled \<notin> set new \<and> (\<forall>m. GeminiCalled m \<notin> set new)) \<and>
         groq_replies (snd (generateInterviewResponse e question prov modelId customPersona w)) =
           groq_replies w \<and>
         gemini_replies (snd (generateInterviewResponse e question prov modelId customPersona w)) =
           gemini_replies w \<and>
         (allowed (checkRateLimit e prov) \<and> cache_miss e question prov modelId customPersona \<longrightarrow>
            fst (generateInterviewResponse e question prov modelId customPersona w) =
              Inr (fallbackResponse prov modelId (js ''Unknown provider: '' @ prov)) \<and>
            error (fallbackResponse prov modelId (js ''Unknown provider: '' @ prov)) =
              JStr (js ''Unknown provider: '' @ prov) \<and>
            provider (fallbackResponse prov modelId (js ''Unknown provider: '' @ prov)) = JStr prov) \<and>
         (allowed (checkRateLimit e prov) \<and> cache_miss e question prov modelId customPersona \<and>
          \<not> isRetryable (js ''Unknown provider: '' @ prov) \<longrightarrow>
            trace (snd (generateInterviewResponse e question prov modelId customPersona w)) =
              trace w @ RateLimitChecked prov # lookups e question prov modelId customPersona
                @ [Attempt])"
proof -
  let ?gen = "generateInterviewResponse e question prov modelId customPersona w"
  let ?w2 = "admitted e question prov modelId customPersona w"
  let ?message = "js ''Unknown provider: '' @ prov"
  have untouched: "(\<exists>new. trace (snd ?gen) = trace w @ new \<and>
                GroqCalled \<notin> set new \<and> (\<forall>m. GeminiCalled m \<notin> set new)) \<and>
         groq_replies (snd ?gen) = groq_replies w \<and> gemini_replies (snd ?gen) = gemini_replies w"
  proof (cases "allowed (checkRateLimit e prov)")
    case False
    then show ?thesis
      by (simp add: generateInterviewResponse_def generate_try_rejected)
  next
    case adm: True
    show ?thesis
    proof (cases "cache_miss e question prov modelId customPersona")
      case False
      then obtain r where "isCacheable e question"
        "getCachedAIResponse e question prov modelId customPersona = Some r"
        by (auto simp: cache_miss_def split: if_splits)
      with adm show ?thesis
        by (simp add: generateInterviewResponse_def generate_try_hit)
    next
      case miss: True
      from retry_unknown [OF assms, of e modelId 3 1000 ?w2]
      obtain w' new where loop: "retryWithBackoff (providerCall e prov modelId) 3 1000 ?w2 = (Inl ?message, w')"
        and same: "groq_replies w' = groq_replies ?w2" "gemini_replies w' = gemini_replies ?w2"
        and tr: "trace w' = trace ?w2 @ new" and new: "set new \<subseteq> insert Attempt (range Slept)"
        by (elim exE conjE)
      from generate_miss_throws [OF adm miss loop]
      have whole: "?gen = (Inr (fallbackResponse prov modelId ?message), w')" .
      have "trace (snd ?gen) =
              trace w @ (RateLimitChecked prov # lookups e question prov modelId customPersona @ new)"
        by (simp add: whole tr)
      moreover have "GroqCalled \<notin> set (RateLimitChecked prov # lookups e question prov modelId customPersona @ new)"
        using new by (auto simp: lookups_def)
      moreover have "\<forall>m. GeminiCalled m \<notin> set (RateLimitChecked prov # lookups e question prov modelId customPersona @ new)"
        using new by (auto simp: lookups_def)
      ultimately have "\<exists>new. trace (snd ?gen) = trace w @ new \<and>
                GroqCalled \<notin> set new \<and> (\<forall>m. GeminiCalled m \<notin> set new)"
        by blast
      then show ?thesis by (simp add: whole same)
    qed
  qed
  have degraded: "fst ?gen = Inr (fallbackResponse prov modelId ?message) \<and>
            error (fallbackResponse prov modelId ?message) = JStr ?message \<and>
            provider (fallbackResponse prov modelId ?message) = JStr prov"
    if "allowed (checkRateLimit e prov) \<and> cache_miss e question prov modelId customPersona"
  proof -
    from that have adm: "allowed (checkRateLimit e prov)"
      and miss: "cache_miss e question prov modelId customPersona" by simp_all
    from retry_unknown [OF assms, of e modelId 3 1000 ?w2]
    obtain w' where loop: "retryWithBackoff (providerCall e prov modelId) 3 1000 ?w2 = (Inl ?message, w')"
      by (elim exE conjE)
    from generate_miss_throws [OF adm miss loop]
    show ?thesis by (simp add: fallbackResponse_def)
  qed
  have once: "trace (snd ?gen) =
              trace w @ RateLimitChecked prov # lookups e question prov modelId customPersona @ [Attempt]"
    if "allowed (checkRateLimit e prov) \<and> cache_miss e question prov modelId customPersona \<and>
          \<not> isRetryable ?message"
  proof -
    from that have adm: "allowed (checkRateLimit e prov)"
      and miss: "cache_miss e question prov modelId customPersona"
      and permanent: "\<not> isRetryable ?message" by simp_all
    have loop: "retryWithBackoff (providerCall e prov modelId) 3 1000 ?w2 = (Inl ?message, emit Attempt ?w2)"
      using unknown_retry_stop [OF assms, of 3 e modelId 1000 ?w2] permanent by simp
    from generate_miss_throws [OF adm miss loop]
    show ?thesis by simp
  qed
  from untouched degraded once show ?thesis by blast
qed

theorem unknown_provider_rejected_witness:
  "js ''invalid-provider'' \<noteq> js ''groq'' \<and> js ''invalid-provider'' \<noteq> js ''gemini'' \<and>
   allowed (checkRateLimit test_env (js ''invalid-provider'')) \<and>
   cache_miss test_env (js ''Test question'') (js ''invalid-provider'') None None \<and>
   \<not> isRetryable (js ''Unknown provider: '' @ js ''invalid-provider'') \<and>
   fst (generateInterviewResponse test_env (js ''Test question'') (js ''invalid-provider'') None None
          (failing_world (js ''Request timeout''))) =
     Inr (fallbackResponse (js ''invalid-provider'') None (js ''Unknown provider: '' @ js ''invalid-provider'')) \<and>
   trace (snd (generateInterviewResponse test_env (js ''Test question'') (js ''invalid-provider'') None None
          (failing_world (js ''Request timeout'')))) =
     [RateLimitChecked (js ''invalid-provider''),
      CacheLookup (js ''Test question'') (js ''invalid-provider'') None None,
      Attempt]"
proof -
  let ?p = "js ''invalid-provider''"
  let ?q = "js ''Test question''"
  let ?w = "failing_world (js ''Request timeout'')"
  have unknown: "?p \<noteq> js ''groq''" "?p \<noteq> js ''gemini''"
    by (simp_all add: js_def)
  have adm: "allowed (checkRateLimit test_env ?p)"
    by (simp add: test_env_def admitting_def)
  have miss: "cache_miss test_env ?q ?p None None"
    by (simp add: cache_miss_def test_env_def)
  have permanent: "\<not> isRetryable (js ''Unknown provider: '' @ ?p)"
    by (simp add: isRetryable_def js_def)
  have lk: "lookups test_env ?q ?p None None = [CacheLookup ?q ?p None None]"
    by (simp add: lookups_def test_env_def)
  have tr: "trace ?w = []"
    by (simp add: failing_world_def)
  note T = unknown_provider_rejected [OF unknown, of test_env ?q None None ?w, unfolded lk tr]
  from T [THEN conjunct2, THEN conjunct2, THEN conjunct2, THEN conjunct1] adm miss
  have a: "fst (generateInterviewResponse test_env ?q ?p None None ?w) =
             Inr (fallbackResponse ?p None (js ''Unknown provider: '' @ ?p))"
    by (simp only: simp_thms)
  from T [THEN conjunct2, THEN conjunct2, THEN conjunct2, THEN conjunct2] adm miss permanent
  have b: "trace (snd (generateInterviewResponse test_env ?q ?p None None ?w)) =
             [RateLimitChecked ?p, CacheLookup ?q ?p None None, Attempt]"
    by (simp only: simp_thms append.simps)
  from unknown adm miss permanent a b show ?thesis by (intro conjI)
qed

section \<open>The pipeline never raises\<close>




end
